theory Spec2Isabelle
  imports Complex_Main "HOL-Library.Word" "HOL-Library.Sublist" "HOL-Library.Log_Nat"
begin

unbundle bit_operations_syntax

section \<open>JavaScript values used by the engine\<close>

text \<open>
  A \<^verbatim>\<open>Uint8Array\<close> is a list of 8-bit words. A JavaScript string is a list of UTF-16
  code units. String literals of the source are ASCII and are written \<open>js ''...''\<close>.
\<close>

type_synonym byte = "8 word"
type_synonym bytes = "byte list"
type_synonym jsstring = "16 word list"

definition js :: "string \<Rightarrow> jsstring" where
  "js s = map (\<lambda>c. of_nat (of_char c)) s"

definition CRLF :: jsstring where
  "CRLF = [13, 10]"

subsection \<open>TextDecoder and TextEncoder (UTF-8)\<close>

text \<open>
  \<^verbatim>\<open>new TextDecoder('utf-8').decode(buffer)\<close>: the UTF-8 decoder of the Encoding
  Standard in its replacement mode. The decoder's state is the code point under
  construction, the number of continuation bytes still needed, and the bounds the next
  continuation byte must respect. A byte that cannot continue a sequence ends it with
  U+FFFD and is then read again as the start of a new sequence.
\<close>

record utf8_state =
  code_point :: nat
  bytes_needed :: nat
  lower_boundary :: nat
  upper_boundary :: nat

definition utf8_initial :: utf8_state where
  "utf8_initial = \<lparr>code_point = 0, bytes_needed = 0, lower_boundary = 0x80, upper_boundary = 0xBF\<rparr>"

definition utf8_lead :: "nat \<Rightarrow> nat list \<times> utf8_state" where
  "utf8_lead v =
     (if v \<le> 0x7F then ([v], utf8_initial)
      else if 0xC2 \<le> v \<and> v \<le> 0xDF then
        ([], utf8_initial\<lparr>bytes_needed := 1, code_point := v mod 32\<rparr>)
      else if 0xE0 \<le> v \<and> v \<le> 0xEF then
        ([], utf8_initial\<lparr>bytes_needed := 2, code_point := v mod 16,
               lower_boundary := (if v = 0xE0 then 0xA0 else 0x80),
               upper_boundary := (if v = 0xED then 0x9F else 0xBF)\<rparr>)
      else if 0xF0 \<le> v \<and> v \<le> 0xF4 then
        ([], utf8_initial\<lparr>bytes_needed := 3, code_point := v mod 8,
               lower_boundary := (if v = 0xF0 then 0x90 else 0x80),
               upper_boundary := (if v = 0xF4 then 0x8F else 0xBF)\<rparr>)
      else ([0xFFFD], utf8_initial))"

definition utf8_step :: "utf8_state \<Rightarrow> byte \<Rightarrow> nat list \<times> utf8_state" where
  "utf8_step st b =
     (let v = unat b in
      if bytes_needed st = 0 then utf8_lead v
      else if v < lower_boundary st \<or> upper_boundary st < v then
        (0xFFFD # fst (utf8_lead v), snd (utf8_lead v))
      else
        (let c = code_point st * 64 + v mod 64 in
         if bytes_needed st = 1 then ([c], utf8_initial)
         else ([], \<lparr>code_point = c, bytes_needed = bytes_needed st - 1,
                     lower_boundary = 0x80, upper_boundary = 0xBF\<rparr>)))"

fun utf8_run :: "utf8_state \<Rightarrow> bytes \<Rightarrow> nat list" where
  "utf8_run st [] = (if bytes_needed st \<noteq> 0 then [0xFFFD] else [])"
| "utf8_run st (b # bs) = (case utf8_step st b of (out, st') \<Rightarrow> out @ utf8_run st' bs)"

text \<open>A decoded text starts after a byte order mark (\<^verbatim>\<open>ignoreBOM\<close> is false).\<close>

definition strip_bom :: "nat list \<Rightarrow> nat list" where
  "strip_bom cps = (case cps of [] \<Rightarrow> [] | c # cs \<Rightarrow> if c = 0xFEFF then cs else c # cs)"

definition utf16_of_cp :: "nat \<Rightarrow> jsstring" where
  "utf16_of_cp c =
     (if c < 0x10000 then [of_nat c]
      else [of_nat (0xD800 + (c - 0x10000) div 1024), of_nat (0xDC00 + (c - 0x10000) mod 1024)])"

definition toString :: "bytes \<Rightarrow> jsstring" where
  "toString buffer = concat (map utf16_of_cp (strip_bom (utf8_run utf8_initial buffer)))"

text \<open>
  \<^verbatim>\<open>new TextEncoder().encode(s)\<close>: the string is read as code points, a surrogate
  without its partner becoming U+FFFD, and each code point is written in UTF-8.
\<close>

definition is_high_surrogate :: "16 word \<Rightarrow> bool" where
  "is_high_surrogate u = (0xD800 \<le> unat u \<and> unat u \<le> 0xDBFF)"

definition is_low_surrogate :: "16 word \<Rightarrow> bool" where
  "is_low_surrogate u = (0xDC00 \<le> unat u \<and> unat u \<le> 0xDFFF)"

fun cps_of_utf16 :: "jsstring \<Rightarrow> nat list" where
  "cps_of_utf16 [] = []"
| "cps_of_utf16 [u] = (if is_high_surrogate u \<or> is_low_surrogate u then [0xFFFD] else [unat u])"
| "cps_of_utf16 (u # v # rest) =
     (if is_high_surrogate u \<and> is_low_surrogate v then
        (0x10000 + (unat u - 0xD800) * 1024 + (unat v - 0xDC00)) # cps_of_utf16 rest
      else if is_high_surrogate u \<or> is_low_surrogate u then 0xFFFD # cps_of_utf16 (v # rest)
      else unat u # cps_of_utf16 (v # rest))"

definition utf8_of_cp :: "nat \<Rightarrow> bytes" where
  "utf8_of_cp c =
     (if c < 0x80 then [of_nat c]
      else if c < 0x800 then [of_nat (0xC0 + c div 64), of_nat (0x80 + c mod 64)]
      else if c < 0x10000 then
        [of_nat (0xE0 + c div 4096), of_nat (0x80 + (c div 64) mod 64), of_nat (0x80 + c mod 64)]
      else
        [of_nat (0xF0 + c div 262144), of_nat (0x80 + (c div 4096) mod 64),
         of_nat (0x80 + (c div 64) mod 64), of_nat (0x80 + c mod 64)])"

definition encode :: "jsstring \<Rightarrow> bytes" where
  "encode s = concat (map utf8_of_cp (cps_of_utf16 s))"

subsection \<open>String operations\<close>

text \<open>\<^verbatim>\<open>s.indexOf(pat)\<close>: the first position where \<open>pat\<close> starts, or \<open>-1\<close>.\<close>

fun indexOf_from :: "nat \<Rightarrow> jsstring \<Rightarrow> jsstring \<Rightarrow> int" where
  "indexOf_from i pat [] = (if pat = [] then int i else - 1)"
| "indexOf_from i pat (c # cs) =
     (if prefix pat (c # cs) then int i else indexOf_from (Suc i) pat cs)"

definition indexOf :: "jsstring \<Rightarrow> jsstring \<Rightarrow> int" where
  "indexOf s pat = indexOf_from 0 pat s"

text \<open>
  \<^verbatim>\<open>s.substring(start, end)\<close>: both positions are clamped to the string, and swapped when
  the first is the larger.
\<close>

definition substring :: "jsstring \<Rightarrow> int \<Rightarrow> int \<Rightarrow> jsstring" where
  "substring s start end' =
     (let len = int (length s);
          a = min (max start 0) len;
          b = min (max end' 0) len;
          from = min a b;
          to = max a b
      in take (nat (to - from)) (drop (nat from) s))"

text \<open>
  \<^verbatim>\<open>s.split(sep)\<close> for a separator that is not empty (the source splits on
  \<^verbatim>\<open>'\r\n'\<close> and on \<^verbatim>\<open>':'\<close> only): the pieces between the occurrences of the
  separator, read from the left. \<^verbatim>\<open>s.split(sep, limit)\<close> keeps the first \<open>limit\<close>
  pieces and drops the rest.
\<close>

fun split_from :: "jsstring \<Rightarrow> jsstring \<Rightarrow> jsstring \<Rightarrow> jsstring list" where
  "split_from sep cur [] = [cur]"
| "split_from sep cur (c # cs) =
     (if sep \<noteq> [] \<and> prefix sep (c # cs)
      then cur # split_from sep [] (drop (length sep - 1) cs)
      else split_from sep (cur @ [c]) cs)"

definition split :: "jsstring \<Rightarrow> jsstring \<Rightarrow> jsstring list" where
  "split s sep = split_from sep [] s"

definition split_limit :: "jsstring \<Rightarrow> jsstring \<Rightarrow> nat \<Rightarrow> jsstring list" where
  "split_limit s sep limit = take limit (split s sep)"

text \<open>\<^verbatim>\<open>s.trim()\<close> removes white space and line terminators at both ends.\<close>

definition is_white_space :: "16 word \<Rightarrow> bool" where
  "is_white_space u =
     (let c = unat u in
      c = 0x09 \<or> c = 0x0A \<or> c = 0x0B \<or> c = 0x0C \<or> c = 0x0D \<or> c = 0x20 \<or> c = 0xA0 \<or>
      c = 0x1680 \<or> (0x2000 \<le> c \<and> c \<le> 0x200A) \<or> c = 0x2028 \<or> c = 0x2029 \<or>
      c = 0x202F \<or> c = 0x205F \<or> c = 0x3000 \<or> c = 0xFEFF)"

definition trim :: "jsstring \<Rightarrow> jsstring" where
  "trim s = rev (dropWhile is_white_space (rev (dropWhile is_white_space s)))"

text \<open>
  \<^verbatim>\<open>array.slice(begin, end)\<close> on a typed array: a negative position counts from the end,
  both are clamped to the array, and an empty range gives an empty array.
\<close>

definition relative_index :: "int \<Rightarrow> int \<Rightarrow> int" where
  "relative_index len i = (if i < 0 then max (len + i) 0 else min i len)"

definition array_slice :: "'a list \<Rightarrow> int \<Rightarrow> int \<Rightarrow> 'a list" where
  "array_slice xs begin end' =
     (let len = int (length xs);
          k = relative_index len begin;
          final = relative_index len end'
      in take (nat (max (final - k) 0)) (drop (nat k) xs))"

definition array_slice_from :: "'a list \<Rightarrow> int \<Rightarrow> 'a list" where
  "array_slice_from xs begin = array_slice xs begin (int (length xs))"

section \<open>Frame decoding\<close>

text \<open>
  The headers object: its own string properties. Assigning a string to the key
  \<^verbatim>\<open>__proto__\<close> of a plain object stores nothing.
\<close>

type_synonym headers = "jsstring \<rightharpoonup> jsstring"

definition set_header :: "headers \<Rightarrow> jsstring \<Rightarrow> jsstring \<Rightarrow> headers" where
  "set_header hs key v = (if key = js ''__proto__'' then hs else hs(key \<mapsto> v))"

text \<open>
  The body of the loop over the header lines, the same in both decoders:
  \<^verbatim>\<open>const [key, value] = line.split(':', 2); if (key && value) headers[key] = value.trim();\<close>
  A piece that is missing is \<^verbatim>\<open>undefined\<close>, and it and the empty string are falsy.
\<close>

definition header_line :: "headers \<Rightarrow> jsstring \<Rightarrow> headers" where
  "header_line hs line =
     (case split_limit line (js '':'') 2 of
        key # value # _ \<Rightarrow> if key \<noteq> [] \<and> value \<noteq> [] then set_header hs key (trim value) else hs
      | _ \<Rightarrow> hs)"

fun header_lines :: "headers \<Rightarrow> jsstring list \<Rightarrow> headers" where
  "header_lines hs [] = hs"
| "header_lines hs (line # lines) = header_lines (header_line hs line) lines"

datatype exn =
    Error jsstring
  | UnexpectedResponse jsstring
  | UnknownResponse jsstring
  | NoAudioReceived jsstring
  | WebSocketError jsstring
  | SkewAdjustmentError jsstring

text \<open>
  \<^verbatim>\<open>(message[0] << 8) | message[1]\<close>: both bytes are widened to 32-bit integers first.
\<close>

definition read_uint16_be :: "byte \<Rightarrow> byte \<Rightarrow> nat" where
  "read_uint16_be b0 b1 = unat (push_bit 8 (ucast b0 :: 32 word) OR ucast b1)"

definition getHeadersAndDataFromBinary :: "bytes \<Rightarrow> exn + headers \<times> bytes" where
  "getHeadersAndDataFromBinary message =
     (if length message < 2 then Inl (Error (js ''Message too short to contain header length''))
      else
        let headerLength = read_uint16_be (message ! 0) (message ! 1);
            headers =
              (if headerLength > 0 \<and> headerLength + 2 \<le> length message then
                 let headerBytes = array_slice message 2 (int headerLength + 2);
                     headerString = toString headerBytes;
                     headerLines = split headerString CRLF
                 in header_lines Map.empty headerLines
               else Map.empty)
        in Inr (headers, array_slice_from message (int headerLength + 2)))"

text \<open>
  The text decoder. When the separator is missing \<open>headerEndIndex\<close> is \<open>-1\<close>, and the
  source still computes the header length from \<^verbatim>\<open>substring(0, headerEndIndex + 4)\<close>.
\<close>

definition getHeadersAndDataFromText :: "bytes \<Rightarrow> headers \<times> bytes" where
  "getHeadersAndDataFromText message =
     (let messageString = toString message;
          headerEndIndex = indexOf messageString (CRLF @ CRLF);
          headers =
            (if headerEndIndex \<noteq> - 1 then
               let headerString = substring messageString 0 headerEndIndex;
                   headerLines = split headerString CRLF
               in header_lines Map.empty headerLines
             else Map.empty);
          headerByteLength = length (encode (substring messageString 0 (headerEndIndex + 4)))
      in (headers, array_slice_from message (int headerByteLength)))"

section \<open>Numbers\<close>

text \<open>
  A JavaScript number is an IEEE 754 binary64 value: a rational (the two zeros are one
  value here; none of the operations below tells them apart on the results the source
  uses), an infinity, or NaN. \<open>fl\<close> rounds a rational to the nearest binary64 value,
  ties to the even significand, with gradual underflow and overflow to infinity.
\<close>

datatype number = Finite rat | PosInfinity | NegInfinity | NaN

definition ilog2 :: "rat \<Rightarrow> int" where
  "ilog2 q =
     (case quotient_of q of (a, b) \<Rightarrow>
        let e = int (floorlog 2 (nat a)) - int (floorlog 2 (nat b))
        in if 2 powi e \<le> q then e else e - 1)"

definition round_half_even :: "rat \<Rightarrow> int" where
  "round_half_even m =
     (let f = \<lfloor>m\<rfloor>; d = m - of_int f
      in if d < 1 / 2 then f else if 1 / 2 < d then f + 1 else if even f then f else f + 1)"

definition fl :: "rat \<Rightarrow> number" where
  "fl q =
     (if q = 0 then Finite 0
      else
        let a = \<bar>q\<bar>;
            p = max (ilog2 a - 52) (- 1074);
            r = of_int (round_half_even (a / 2 powi p)) * 2 powi p
        in if 2 powi 1024 \<le> r then (if 0 < q then PosInfinity else NegInfinity)
           else Finite (sgn q * r))"

definition num_neg :: "number \<Rightarrow> number" where
  "num_neg a =
     (case a of Finite x \<Rightarrow> Finite (- x) | PosInfinity \<Rightarrow> NegInfinity
      | NegInfinity \<Rightarrow> PosInfinity | NaN \<Rightarrow> NaN)"

definition num_add :: "number \<Rightarrow> number \<Rightarrow> number" where
  "num_add a b =
     (case (a, b) of
        (NaN, _) \<Rightarrow> NaN
      | (_, NaN) \<Rightarrow> NaN
      | (Finite x, Finite y) \<Rightarrow> fl (x + y)
      | (PosInfinity, NegInfinity) \<Rightarrow> NaN
      | (NegInfinity, PosInfinity) \<Rightarrow> NaN
      | (PosInfinity, _) \<Rightarrow> PosInfinity
      | (_, PosInfinity) \<Rightarrow> PosInfinity
      | (NegInfinity, _) \<Rightarrow> NegInfinity
      | (_, NegInfinity) \<Rightarrow> NegInfinity)"

definition num_sub :: "number \<Rightarrow> number \<Rightarrow> number" where
  "num_sub a b = num_add a (num_neg b)"

definition num_sgn :: "number \<Rightarrow> rat" where
  "num_sgn a = (case a of Finite x \<Rightarrow> sgn x | PosInfinity \<Rightarrow> 1 | NegInfinity \<Rightarrow> - 1 | NaN \<Rightarrow> 0)"

definition signed_infinity :: "rat \<Rightarrow> number" where
  "signed_infinity s = (if 0 < s then PosInfinity else NegInfinity)"

definition num_mul :: "number \<Rightarrow> number \<Rightarrow> number" where
  "num_mul a b =
     (case (a, b) of
        (NaN, _) \<Rightarrow> NaN
      | (_, NaN) \<Rightarrow> NaN
      | (Finite x, Finite y) \<Rightarrow> fl (x * y)
      | _ \<Rightarrow> if num_sgn a * num_sgn b = 0 then NaN else signed_infinity (num_sgn a * num_sgn b))"

text \<open>
  Division. The source divides by the constants 1000 and 100 only; a division by zero
  is given here for the positive zero.
\<close>

definition num_div :: "number \<Rightarrow> number \<Rightarrow> number" where
  "num_div a b =
     (case (a, b) of
        (NaN, _) \<Rightarrow> NaN
      | (_, NaN) \<Rightarrow> NaN
      | (Finite x, Finite y) \<Rightarrow>
          if y = 0 then (if x = 0 then NaN else signed_infinity x) else fl (x / y)
      | (Finite x, _) \<Rightarrow> Finite 0
      | (_, Finite y) \<Rightarrow> signed_infinity (num_sgn a * (if y < 0 then - 1 else 1))
      | _ \<Rightarrow> NaN)"

text \<open>
  The remainder \<^verbatim>\<open>a % b\<close> has the sign of the dividend: the quotient is truncated
  towards zero. The remainder of two binary64 values is a binary64 value, so nothing is
  rounded.
\<close>

definition trunc_to_zero :: "rat \<Rightarrow> int" where
  "trunc_to_zero q = (if 0 \<le> q then \<lfloor>q\<rfloor> else \<lceil>q\<rceil>)"

definition num_mod :: "number \<Rightarrow> number \<Rightarrow> number" where
  "num_mod a b =
     (case (a, b) of
        (Finite x, Finite y) \<Rightarrow> if y = 0 then NaN else Finite (x - y * of_int (trunc_to_zero (x / y)))
      | (Finite x, PosInfinity) \<Rightarrow> Finite x
      | (Finite x, NegInfinity) \<Rightarrow> Finite x
      | _ \<Rightarrow> NaN)"

text \<open>Decimal digits of a natural number, as \<^verbatim>\<open>toFixed\<close> prints an integer.\<close>

fun decimal :: "nat \<Rightarrow> jsstring" where
  "decimal n = (if n < 10 then [of_nat (48 + n)] else decimal (n div 10) @ [of_nat (48 + n mod 10)])"

text \<open>
  \<^verbatim>\<open>x.toFixed(0)\<close>: for a finite \<open>x\<close> below \<open>10\<^sup>2\<^sup>1\<close> in magnitude, the integer nearest to
  \<open>\<bar>x\<bar>\<close> (the larger one of two), after a minus sign when \<open>x < 0\<close>. Every other number is
  printed by the general number-to-string conversion, which is a parameter here.
\<close>

definition toFixed0 :: "(number \<Rightarrow> jsstring) \<Rightarrow> number \<Rightarrow> jsstring" where
  "toFixed0 Number_toString a =
     (case a of
        Finite x \<Rightarrow>
          if 10 ^ 21 \<le> \<bar>x\<bar> then Number_toString a
          else (if x < 0 then js ''-'' else []) @ decimal (nat \<lfloor>\<bar>x\<bar> + 1 / 2\<rfloor>)
      | _ \<Rightarrow> Number_toString a)"

section \<open>Clock skew and the Sec-MS-GEC token (drm.ts)\<close>

definition WIN_EPOCH :: number where
  "WIN_EPOCH = Finite 11644473600"

definition S_TO_NS :: number where
  "S_TO_NS = Finite 1000000000"

text \<open>
  The class keeps the skew in a static field: the functions take it and return it.
  \<open>now\<close> is the value of \<^verbatim>\<open>Date.now()\<close>, in milliseconds.
\<close>

definition adjClockSkewSeconds :: "number \<Rightarrow> number \<Rightarrow> number" where
  "adjClockSkewSeconds clockSkewSeconds skewSeconds = num_add clockSkewSeconds skewSeconds"

definition getUnixTimestamp :: "number \<Rightarrow> number \<Rightarrow> number" where
  "getUnixTimestamp now clockSkewSeconds = num_add (num_div now (Finite 1000)) clockSkewSeconds"

text \<open>
  \<^verbatim>\<open>new Date(date).getTime()\<close> is a parameter, \<open>Date_getTime\<close>. For a string argument
  the constructor never throws: the time value of a date it cannot parse is NaN. So the
  \<^verbatim>\<open>catch\<close> of \<open>parseRfc2616Date\<close> is never entered and the function never returns
  \<^verbatim>\<open>null\<close>.
\<close>

definition parseRfc2616Date :: "(jsstring \<Rightarrow> number) \<Rightarrow> jsstring \<Rightarrow> number option" where
  "parseRfc2616Date Date_getTime date = Some (num_div (Date_getTime date) (Finite 1000))"

text \<open>
  The headers of the response: a Fetch \<^verbatim>\<open>Headers\<close> object (its \<^verbatim>\<open>get\<close> finds a header
  under its lower-case name), a plain object, or no object at all.
\<close>

datatype response_headers = FetchHeaders headers | PlainHeaders headers | NoHeaders

definition truthy :: "jsstring option \<Rightarrow> bool" where
  "truthy v = (case v of None \<Rightarrow> False | Some s \<Rightarrow> s \<noteq> [])"

definition server_date :: "response_headers \<Rightarrow> jsstring option" where
  "server_date hs =
     (case hs of
        FetchHeaders h \<Rightarrow> h (js ''date'')
      | PlainHeaders h \<Rightarrow> (if truthy (h (js ''date'')) then h (js ''date'') else h (js ''Date''))
      | NoHeaders \<Rightarrow> None)"

definition handleClientResponseError ::
  "(jsstring \<Rightarrow> number) \<Rightarrow> number \<Rightarrow> number \<Rightarrow> response_headers \<Rightarrow> exn + number" where
  "handleClientResponseError Date_getTime now clockSkewSeconds hs =
     (let serverDate = server_date hs in
      if \<not> truthy serverDate then Inl (SkewAdjustmentError (js ''No server date in headers.''))
      else
        case parseRfc2616Date Date_getTime (the serverDate) of
          None \<Rightarrow>
            Inl (SkewAdjustmentError (js ''Failed to parse server date: '' @ the serverDate))
        | Some serverDateParsed \<Rightarrow>
            let clientDate = getUnixTimestamp now clockSkewSeconds
            in Inr (adjClockSkewSeconds clockSkewSeconds (num_sub serverDateParsed clientDate)))"

text \<open>
  \<open>sha256val\<close> and \<open>TRUSTED_CLIENT_TOKEN\<close> are imported from files that are not part of
  the sources at hand: both are parameters. \<open>strToHash\<close> is the string handed to the
  digest.
\<close>

definition strToHash :: "(number \<Rightarrow> jsstring) \<Rightarrow> jsstring \<Rightarrow> number \<Rightarrow> number \<Rightarrow> jsstring" where
  "strToHash Number_toString TRUSTED_CLIENT_TOKEN now clockSkewSeconds =
     (let ticks = getUnixTimestamp now clockSkewSeconds;
          ticks = num_add ticks WIN_EPOCH;
          ticks = num_sub ticks (num_mod ticks (Finite 300));
          ticks = num_mul ticks (num_div S_TO_NS (Finite 100))
      in toFixed0 Number_toString ticks @ TRUSTED_CLIENT_TOKEN)"

definition generateSecMsGec ::
  "(jsstring \<Rightarrow> jsstring) \<Rightarrow> (number \<Rightarrow> jsstring) \<Rightarrow> jsstring \<Rightarrow> number \<Rightarrow> number \<Rightarrow> jsstring" where
  "generateSecMsGec sha256val Number_toString TRUSTED_CLIENT_TOKEN now clockSkewSeconds =
     sha256val (strToHash Number_toString TRUSTED_CLIENT_TOKEN now clockSkewSeconds)"

section \<open>The Communicate engine\<close>

subsection \<open>State, chunks and the message queue\<close>

record CommunicateState =
  partialText :: bytes
  offsetCompensation :: number
  lastDurationOffset :: number
  streamWasCalled :: bool

definition initial_state :: CommunicateState where
  "initial_state =
     \<lparr>partialText = [], offsetCompensation = Finite 0, lastDurationOffset = Finite 0,
      streamWasCalled = False\<rparr>"

datatype chunk_type = audio | WordBoundary

record TTSChunk =
  type :: chunk_type
  data :: "bytes option"
  duration :: "number option"
  offset :: "number option"
  text' :: "jsstring option"

text \<open>An entry of the queue: a chunk, an error, or the string \<^verbatim>\<open>'close'\<close>.\<close>

datatype queue_item = Chunk TTSChunk | Failure exn | Close

datatype outcome = Returned | Raised exn | Pending

subsection \<open>Metadata\<close>

text \<open>
  An entry of the \<^verbatim>\<open>Metadata\<close> array of a parsed \<^verbatim>\<open>audio.metadata\<close> body, for bodies of
  the service's schema: \<^verbatim>\<open>Type\<close>, \<^verbatim>\<open>Data.Offset\<close>, \<^verbatim>\<open>Data.Duration\<close> and
  \<^verbatim>\<open>Data.text.Text\<close>; the last three are read for a \<^verbatim>\<open>WordBoundary\<close> entry only.
  \<^verbatim>\<open>JSON.parse\<close> followed by the selection of \<^verbatim>\<open>Metadata\<close> is the parameter
  \<open>JSON_parse\<close>, which gives the array or the exception; \<open>unescape\<close> comes from a
  file that is not part of the sources at hand and is a parameter too.
\<close>

record metaObj =
  Type :: jsstring
  Offset :: number
  Duration :: number
  Text :: jsstring

fun parseMetadata_loop ::
  "(jsstring \<Rightarrow> jsstring) \<Rightarrow> CommunicateState \<Rightarrow> metaObj list \<Rightarrow> exn + TTSChunk" where
  "parseMetadata_loop unescape st [] =
     Inl (UnexpectedResponse (js ''No WordBoundary metadata found''))"
| "parseMetadata_loop unescape st (metaObj # rest) =
     (let metaType = Type metaObj in
      if metaType = js ''WordBoundary'' then
        let currentOffset = num_add (Offset metaObj) (offsetCompensation st);
            currentDuration = Duration metaObj
        in Inr \<lparr>type = WordBoundary, data = None, duration = Some currentDuration,
                offset = Some currentOffset, text' = Some (unescape (Text metaObj))\<rparr>
      else if metaType = js ''SessionEnd'' then parseMetadata_loop unescape st rest
      else Inl (UnknownResponse (js ''Unknown metadata type: '' @ metaType)))"

definition parseMetadata ::
  "(jsstring \<Rightarrow> exn + metaObj list) \<Rightarrow> (jsstring \<Rightarrow> jsstring) \<Rightarrow> CommunicateState \<Rightarrow> bytes
     \<Rightarrow> exn + TTSChunk" where
  "parseMetadata JSON_parse unescape st dat =
     (case JSON_parse (toString dat) of
        Inl e \<Rightarrow> Inl e
      | Inr metadata \<Rightarrow> parseMetadata_loop unescape st metadata)"

subsection \<open>One sub-session: the handlers of the socket and the consumer of the queue\<close>

record session =
  state :: CommunicateState
  messageQueue :: "queue_item list"
  closeRequested :: bool

definition push :: "queue_item \<Rightarrow> session \<Rightarrow> session" where
  "push item s = s\<lparr>messageQueue := messageQueue s @ [item]\<rparr>"

definition processBinaryData :: "bytes \<Rightarrow> session \<Rightarrow> session" where
  "processBinaryData bufferData s =
     (if length bufferData < 2 then
        push (Failure (UnexpectedResponse
          (js ''We received a binary message, but it is missing the header length.''))) s
      else
        case getHeadersAndDataFromBinary bufferData of
          Inl e \<Rightarrow> s
        | Inr (headers, audioData) \<Rightarrow>
            if headers (js ''Path'') \<noteq> Some (js ''audio'') then
              push (Failure (UnexpectedResponse
                (js ''Received binary message, but the path is not audio.''))) s
            else
              let contentType = headers (js ''Content-Type'') in
              if contentType \<noteq> Some (js ''audio/mpeg'') then
                (if length audioData > 0 then
                   push (Failure (UnexpectedResponse
                     (js ''Received binary message, but with an unexpected Content-Type.''))) s
                 else s)
              else if length audioData = 0 then
                push (Failure (UnexpectedResponse
                  (js ''Received binary message, but it is missing the audio data.''))) s
              else
                push (Chunk \<lparr>type = audio, data = Some audioData, duration = None,
                             offset = None, text' = None\<rparr>) s)"

text \<open>
  The value \<open>data\<close> of \<open>handleMessage\<close> after \<^verbatim>\<open>message.data || message\<close>: a string, an
  \<^verbatim>\<open>ArrayBuffer\<close>, a \<^verbatim>\<open>Uint8Array\<close>, or anything else, which carries the text
  \<^verbatim>\<open>typeof data\<close>, a space and the constructor's name. The empty string is falsy, so
  the event object stands in its place and \<open>StringData []\<close> does not occur. A
  \<^verbatim>\<open>Blob\<close> is read in the background and reaches \<open>processBinaryData\<close> at a later
  time; it is not among the values here.
\<close>

datatype message_data =
    StringData jsstring
  | ArrayBufferData bytes
  | Uint8ArrayData bytes
  | OtherData jsstring

definition number_of :: "number option \<Rightarrow> number" where
  "number_of v = (case v of None \<Rightarrow> NaN | Some n \<Rightarrow> n)"

definition string_of :: "jsstring option \<Rightarrow> jsstring" where
  "string_of v = (case v of None \<Rightarrow> js ''undefined'' | Some s \<Rightarrow> s)"

definition handleMessage ::
  "(jsstring \<Rightarrow> exn + metaObj list) \<Rightarrow> (jsstring \<Rightarrow> jsstring) \<Rightarrow> message_data \<Rightarrow> session
     \<Rightarrow> session" where
  "handleMessage JSON_parse unescape dat s =
     (case dat of
        StringData str \<Rightarrow>
          (case getHeadersAndDataFromText (encode str) of (headers, parsedData) \<Rightarrow>
             let path = headers (js ''Path'') in
             if path = Some (js ''audio.metadata'') then
               (case parseMetadata JSON_parse unescape (state s) parsedData of
                  Inr parsedMetadata \<Rightarrow>
                    push (Chunk parsedMetadata)
                      (s\<lparr>state := (state s)\<lparr>lastDurationOffset :=
                          num_add (number_of (offset parsedMetadata))
                                  (number_of (duration parsedMetadata))\<rparr>\<rparr>)
                | Inl e \<Rightarrow> push (Failure e) s)
             else if path = Some (js ''turn.end'') then
               s\<lparr>state := (state s)\<lparr>offsetCompensation := lastDurationOffset (state s)\<rparr>,
                 closeRequested := True\<rparr>
             else if path \<noteq> Some (js ''response'') \<and> path \<noteq> Some (js ''turn.start'') then
               push (Failure (UnknownResponse (js ''Unknown path received: '' @ string_of path))) s
             else s)
      | ArrayBufferData bufferData \<Rightarrow> processBinaryData bufferData s
      | Uint8ArrayData bufferData \<Rightarrow> processBinaryData bufferData s
      | OtherData description \<Rightarrow>
          push (Failure (UnexpectedResponse (js ''Unknown binary data type: '' @ description))) s)"

text \<open>
  The events of an open socket. While the connection is awaited the source assigns
  \<^verbatim>\<open>websocket.onerror\<close> a second time, to the \<^verbatim>\<open>reject\<close> of a promise that has been
  settled once the socket is open: an error event of an open socket changes nothing.
  A close event puts \<^verbatim>\<open>'close'\<close> in the queue.
\<close>

datatype ws_event = MessageEvent message_data | ErrorEvent | CloseEvent

definition handle_event ::
  "(jsstring \<Rightarrow> exn + metaObj list) \<Rightarrow> (jsstring \<Rightarrow> jsstring) \<Rightarrow> session \<Rightarrow> ws_event
     \<Rightarrow> session" where
  "handle_event JSON_parse unescape s ev =
     (case ev of
        MessageEvent dat \<Rightarrow> handleMessage JSON_parse unescape dat s
      | ErrorEvent \<Rightarrow> s
      | CloseEvent \<Rightarrow> push Close s)"

fun handle_events ::
  "(jsstring \<Rightarrow> exn + metaObj list) \<Rightarrow> (jsstring \<Rightarrow> jsstring) \<Rightarrow> session \<Rightarrow> ws_event list
     \<Rightarrow> session" where
  "handle_events JSON_parse unescape s [] = s"
| "handle_events JSON_parse unescape s (ev # evs) =
     handle_events JSON_parse unescape (handle_event JSON_parse unescape s ev) evs"

text \<open>
  The loop of \<^verbatim>\<open>_stream\<close> over the queue, in the order in which the entries were put
  there: the chunks it yields and how it ends. When the queue runs out the loop waits
  for the next entry; a queue that holds neither \<^verbatim>\<open>'close'\<close> nor an error keeps it
  waiting for ever, which is the outcome \<open>Pending\<close>.
\<close>

fun consume :: "bool \<Rightarrow> queue_item list \<Rightarrow> TTSChunk list \<times> outcome" where
  "consume audioWasReceived [] = ([], Pending)"
| "consume audioWasReceived (Close # queue) =
     (if \<not> audioWasReceived then ([], Raised (NoAudioReceived (js ''No audio was received.'')))
      else ([], Returned))"
| "consume audioWasReceived (Failure e # queue) = ([], Raised e)"
| "consume audioWasReceived (Chunk message # queue) =
     (case consume (audioWasReceived \<or> type message = audio) queue of
        (yielded, result) \<Rightarrow> (message # yielded, result))"

text \<open>
  \<^verbatim>\<open>_stream\<close> for one text segment whose socket opens and then delivers \<open>events\<close>:
  the handlers fill the queue and change the state, the loop empties the queue.
\<close>

definition stream_segment ::
  "(jsstring \<Rightarrow> exn + metaObj list) \<Rightarrow> (jsstring \<Rightarrow> jsstring) \<Rightarrow> CommunicateState
     \<Rightarrow> ws_event list \<Rightarrow> TTSChunk list \<times> outcome \<times> CommunicateState" where
  "stream_segment JSON_parse unescape st events =
     (let s = handle_events JSON_parse unescape
                \<lparr>state = st, messageQueue = [], closeRequested = False\<rparr> events
      in case consume False (messageQueue s) of
           (yielded, result) \<Rightarrow> (yielded, result, state s))"

subsection \<open>The public stream\<close>

text \<open>
  \<open>texts\<close> pairs each text segment of the generator \<^verbatim>\<open>this.texts\<close> with the events its
  socket delivers. The body of \<open>stream\<close> runs when the iteration of the generator
  starts; an error ends the iteration, and the segments after it are not opened.
\<close>

fun stream_texts ::
  "(jsstring \<Rightarrow> exn + metaObj list) \<Rightarrow> (jsstring \<Rightarrow> jsstring) \<Rightarrow> CommunicateState
     \<Rightarrow> (bytes \<times> ws_event list) list \<Rightarrow> TTSChunk list \<times> outcome \<times> CommunicateState" where
  "stream_texts JSON_parse unescape st [] = ([], Returned, st)"
| "stream_texts JSON_parse unescape st ((partial, events) # texts) =
     (case stream_segment JSON_parse unescape (st\<lparr>partialText := partial\<rparr>) events of
        (yielded, Returned, st') \<Rightarrow>
          (case stream_texts JSON_parse unescape st' texts of
             (yielded', result) \<Rightarrow> (yielded @ yielded', result))
      | (yielded, result, st') \<Rightarrow> (yielded, result, st'))"

definition stream ::
  "(jsstring \<Rightarrow> exn + metaObj list) \<Rightarrow> (jsstring \<Rightarrow> jsstring) \<Rightarrow> CommunicateState
     \<Rightarrow> (bytes \<times> ws_event list) list \<Rightarrow> TTSChunk list \<times> outcome \<times> CommunicateState" where
  "stream JSON_parse unescape st texts =
     (if streamWasCalled st then ([], Raised (Error (js ''stream can only be called once.'')), st)
      else stream_texts JSON_parse unescape (st\<lparr>streamWasCalled := True\<rparr>) texts)"

text \<open>
  \<^verbatim>\<open>stream\<close> is an async generator function. A call of it runs none of its body: it
  returns a generator that has not started, raises nothing and leaves the state of the
  engine as it is. The body, \<open>stream\<close> above, runs when that generator is resumed for
  the first time, and reads \<^verbatim>\<open>this.state\<close> then; a generator that has not started holds
  nothing of its own.
\<close>

datatype generator = SuspendedStart

definition call_stream :: "CommunicateState \<Rightarrow> (exn + generator) \<times> CommunicateState" where
  "call_stream st = (Inr SuspendedStart, st)"

subsection \<open>Example frames\<close>

text \<open>
  A binary frame as the service sends it: the length of the header block in two bytes,
  the header block, and three bytes of audio.
\<close>

definition example_audio_frame :: bytes where
  "example_audio_frame =
     [0x00, 0x25] @ encode (js ''Content-Type:audio/mpeg'' @ CRLF @ js ''Path:audio'' @ CRLF)
       @ [0xFF, 0xF3, 0x44]"

subsection \<open>Example bodies\<close>

text \<open>
  \<^verbatim>\<open>JSON.parse\<close> for the examples: the table lists the bodies that parse together with
  their \<^verbatim>\<open>Metadata\<close> arrays; any other text is a syntax error.
\<close>

definition JSON_parse_of :: "(jsstring \<times> metaObj list) list \<Rightarrow> jsstring \<Rightarrow> exn + metaObj list" where
  "JSON_parse_of table s =
     (case map_of table s of
        Some metadata \<Rightarrow> Inr metadata
      | None \<Rightarrow> Inl (Error (js ''SyntaxError: Unexpected token'')))"

definition empty_metadata_body :: jsstring where
  "empty_metadata_body = js ''{\"Metadata\":[]}''"

text \<open>A body whose array holds an entry of another type after a \<^verbatim>\<open>WordBoundary\<close> entry.\<close>

definition word_then_viseme_body :: jsstring where
  "word_then_viseme_body = js ''{\"Metadata\":[{\"Type\":\"WordBoundary\",\"Data\":{\"Offset\":1000,\"Duration\":500,\"text\":{\"Text\":\"Hello\"}}},{\"Type\":\"Viseme\",\"Data\":{\"Offset\":1000,\"VisemeId\":0}}]}''"

definition meta_entry :: "string \<Rightarrow> int \<Rightarrow> int \<Rightarrow> string \<Rightarrow> metaObj" where
  "meta_entry ty off dur txt =
     \<lparr>Type = js ty, Offset = Finite (of_int off), Duration = Finite (of_int dur), Text = js txt\<rparr>"

text \<open>Strings of ASCII characters: for these decoding undoes encoding, byte for unit.\<close>

definition is_ascii :: "jsstring \<Rightarrow> bool" where
  "is_ascii s = list_all (\<lambda>u. unat u < 128) s"

text \<open>
  Text frames as the service sends them: three header lines, the empty line, the body.
\<close>

definition text_frame :: "string \<Rightarrow> jsstring \<Rightarrow> jsstring" where
  "text_frame path body =
     js ''X-RequestId:0a1b2c3d'' @ CRLF
       @ js ''Content-Type:application/json; charset=utf-8'' @ CRLF
       @ js ''Path:'' @ js path @ CRLF @ CRLF @ body"

definition first_body :: jsstring where
  "first_body = js ''{\"Metadata\":[{\"Type\":\"WordBoundary\",\"Data\":{\"Offset\":1000,\"Duration\":500,\"text\":{\"Text\":\"Hello\"}}}]}''"

definition second_body :: jsstring where
  "second_body = js ''{\"Metadata\":[{\"Type\":\"WordBoundary\",\"Data\":{\"Offset\":0,\"Duration\":700,\"text\":{\"Text\":\"world\"}}}]}''"

definition example_JSON_parse :: "jsstring \<Rightarrow> exn + metaObj list" where
  "example_JSON_parse =
     JSON_parse_of
       [(first_body, [meta_entry ''WordBoundary'' 1000 500 ''Hello'']),
        (second_body, [meta_entry ''WordBoundary'' 0 700 ''world''])]"

text \<open>
  \<^verbatim>\<open>new Date(date).getTime()\<close> for the examples: one date that parses, to its time in
  milliseconds; any other string is an invalid date, whose time value is NaN.
\<close>

definition example_Date_getTime :: "jsstring \<Rightarrow> number" where
  "example_Date_getTime date =
     (if date = js ''Tue, 01 Jan 2030 00:00:00 GMT'' then Finite 1893456000000 else NaN)"

text \<open>
  The general number-to-string conversion for the examples, on the numbers that are not
  finite. A finite number reaches it from \<^verbatim>\<open>toFixed\<close> at a magnitude of \<open>10\<^sup>2\<^sup>1\<close> or
  more only, which no example has.
\<close>

definition example_Number_toString :: "number \<Rightarrow> jsstring" where
  "example_Number_toString a =
     (case a of NaN \<Rightarrow> js ''NaN'' | PosInfinity \<Rightarrow> js ''Infinity''
      | NegInfinity \<Rightarrow> js ''-Infinity'' | Finite x \<Rightarrow> [])"

section \<open>Properties of the frame decoders\<close>




lemma slice_from_drop: "array_slice_from xs (int a) = drop a xs"
  by (simp add: array_slice_from_def array_slice_def relative_index_def Let_def min_def max_def)




lemma split_from_char_first:
  "c \<notin> set k \<Longrightarrow> split_from [c] cur (k @ c # v) = (cur @ k) # split_from [c] [] v"
  by (induction k arbitrary: cur) auto



lemmas decode_simps =
  toString_def utf8_step_def utf8_lead_def utf8_initial_def strip_bom_def utf16_of_cp_def
  encode_def utf8_of_cp_def is_high_surrogate_def is_low_surrogate_def
  split_def split_limit_def header_line_def set_header_def CRLF_def js_def trim_def
  is_white_space_def

lemma example_audio_frame_bytes:
  "example_audio_frame =
     [0x00, 0x25, 67, 111, 110, 116, 101, 110, 116, 45, 84, 121, 112, 101, 58, 97, 117, 100,
      105, 111, 47, 109, 112, 101, 103, 13, 10, 80, 97, 116, 104, 58, 97, 117, 100, 105, 111,
      13, 10, 0xFF, 0xF3, 0x44]"
  by (simp add: example_audio_frame_def decode_simps)

lemma example_audio_frame_decode:
  "getHeadersAndDataFromBinary example_audio_frame =
     Inr ([js ''Content-Type'' \<mapsto> js ''audio/mpeg'', js ''Path'' \<mapsto> js ''audio''],
          [0xFF, 0xF3, 0x44])"
  by (simp add: example_audio_frame_bytes getHeadersAndDataFromBinary_def read_uint16_be_def
      array_slice_def array_slice_from_def relative_index_def decode_simps)



section \<open>Properties of the handlers\<close>

lemma state_push: "state (push item s) = state s"
  by (simp add: push_def)

lemma messageQueue_push: "messageQueue (push item s) = messageQueue s @ [item]"
  by (simp add: push_def)

lemma state_processBinaryData: "state (processBinaryData bufferData s) = state s"
  by (simp add: processBinaryData_def state_push Let_def split: sum.splits prod.splits)

lemma decode_Inr_length:
  "getHeadersAndDataFromBinary bufferData = Inr r \<Longrightarrow> 2 \<le> length bufferData"
  by (simp add: getHeadersAndDataFromBinary_def split: if_splits)

text \<open>
  C7. A binary frame that decodes to \<open>headers\<close> and \<open>audioData\<close> adds to the queue:
  an error when \<open>Path\<close> is not \<open>audio\<close>; otherwise, under the content type
  \<open>audio/mpeg\<close>, one audio chunk with the payload when the payload is not empty and an
  error when it is empty; under any other content type (or none), an error when the
  payload is not empty and nothing at all when it is empty. The state does not change.
\<close>

theorem processBinaryData_classifies:
  assumes "getHeadersAndDataFromBinary bufferData = Inr (headers, audioData)"
  shows "processBinaryData bufferData s =
     s\<lparr>messageQueue := messageQueue s @
       (if headers (js ''Path'') \<noteq> Some (js ''audio'') then
          [Failure (UnexpectedResponse (js ''Received binary message, but the path is not audio.''))]
        else if headers (js ''Content-Type'') = Some (js ''audio/mpeg'') then
          (if audioData \<noteq> [] then
             [Chunk \<lparr>type = audio, data = Some audioData, duration = None, offset = None,
                     text' = None\<rparr>]
           else
             [Failure (UnexpectedResponse
                (js ''Received binary message, but it is missing the audio data.''))])
        else
          (if audioData \<noteq> [] then
             [Failure (UnexpectedResponse
                (js ''Received binary message, but with an unexpected Content-Type.''))]
           else []))\<rparr>"
  using assms decode_Inr_length [OF assms]
  by (simp add: processBinaryData_def push_def Let_def)

theorem processBinaryData_classifies_witness:
  "getHeadersAndDataFromBinary example_audio_frame =
      Inr ([js ''Content-Type'' \<mapsto> js ''audio/mpeg'', js ''Path'' \<mapsto> js ''audio''],
           [0xFF, 0xF3, 0x44])
   \<and> processBinaryData example_audio_frame
        \<lparr>state = initial_state, messageQueue = [], closeRequested = False\<rparr> =
      \<lparr>state = initial_state,
       messageQueue = [Chunk \<lparr>type = audio, data = Some [0xFF, 0xF3, 0x44], duration = None,
                               offset = None, text' = None\<rparr>],
       closeRequested = False\<rparr>"
  using processBinaryData_classifies [OF example_audio_frame_decode]
    example_audio_frame_decode
  by (simp add: js_def)

section \<open>Text frames of ASCII characters\<close>

lemma cps_of_utf16_ascii: "is_ascii s \<Longrightarrow> cps_of_utf16 s = map unat s"
  by (induction s rule: cps_of_utf16.induct)
     (auto simp: is_ascii_def is_high_surrogate_def is_low_surrogate_def)

lemma utf8_of_cp_ascii: "c < 128 \<Longrightarrow> utf8_of_cp c = [of_nat c]"
  by (simp add: utf8_of_cp_def)

lemma encode_ascii: "is_ascii s \<Longrightarrow> encode s = map ucast s"
proof -
  assume a: "is_ascii s"
  have "concat (map utf8_of_cp (map unat s)) = map ucast s"
    using a by (induction s) (simp_all add: is_ascii_def utf8_of_cp_ascii)
  then show ?thesis using a by (simp add: encode_def cps_of_utf16_ascii)
qed

lemma utf8_run_ascii:
  "list_all (\<lambda>b. unat b < 128) bs \<Longrightarrow> utf8_run utf8_initial bs = map unat bs"
  by (induction bs) (simp_all add: utf8_step_def utf8_lead_def utf8_initial_def)

lemma unat_byte_of_unit: "unat (u :: 16 word) < 128 \<Longrightarrow> unat (ucast u :: 8 word) = unat u"
  by (simp add: unsigned_ucast_eq take_bit_nat_eq_self)

lemma indexOf_from_ge: "- 1 \<le> indexOf_from n pat s"
  by (induction s arbitrary: n) auto

lemma toString_encode_ascii:
  assumes "is_ascii s"
  shows "toString (encode s) = s"
proof -
  have b: "list_all (\<lambda>b. unat b < 128) (map ucast s :: bytes)"
    using assms by (induction s) (simp_all add: is_ascii_def unat_byte_of_unit)
  have m: "map unat (map ucast s :: bytes) = map unat s"
    using assms by (induction s) (simp_all add: is_ascii_def unat_byte_of_unit)
  have sb: "strip_bom (map unat s) = map unat s"
    using assms by (cases s) (auto simp: strip_bom_def is_ascii_def)
  have c: "concat (map utf16_of_cp (map unat s)) = s"
    using assms by (induction s) (simp_all add: is_ascii_def utf16_of_cp_def)
  have "toString (encode s) = concat (map utf16_of_cp (strip_bom (utf8_run utf8_initial (map ucast s))))"
    using assms by (simp only: toString_def encode_ascii)
  also have "\<dots> = concat (map utf16_of_cp (strip_bom (map unat s)))"
    by (simp only: utf8_run_ascii [OF b] m)
  also have "\<dots> = s" by (simp only: sb c)
  finally show ?thesis .
qed

lemma length_encode_ascii: "is_ascii s \<Longrightarrow> length (encode s) = length s"
  by (simp add: encode_ascii)

lemma is_ascii_take: "is_ascii s \<Longrightarrow> is_ascii (take n s)"
  by (simp add: is_ascii_def list_all_iff) (meson in_set_takeD)

lemma is_ascii_drop: "is_ascii s \<Longrightarrow> is_ascii (drop n s)"
  by (simp add: is_ascii_def list_all_iff) (meson in_set_dropD)

lemma drop_encode_ascii: "is_ascii s \<Longrightarrow> drop n (encode s) = encode (drop n s)"
  by (simp add: encode_ascii is_ascii_drop drop_map)

lemma substring_prefix:
  "0 \<le> e \<Longrightarrow> substring s 0 e = take (nat e) s"
  by (simp add: substring_def Let_def min_def max_def) 

lemma text_decode_ascii:
  assumes "is_ascii str"
  shows "getHeadersAndDataFromText (encode str) =
     (let i = indexOf str (CRLF @ CRLF) in
      (if i \<noteq> - 1 then header_lines Map.empty (split (take (nat i) str) CRLF) else Map.empty,
       encode (drop (nat (i + 4)) str)))"
proof -
  define i where "i = indexOf str (CRLF @ CRLF)"
  have i: "- 1 \<le> i" by (simp add: i_def indexOf_def indexOf_from_ge)
  have sub: "substring str 0 (i + 4) = take (nat (i + 4)) str"
    using i by (simp add: substring_prefix)
  have "length (encode (take (nat (i + 4)) str)) = min (length str) (nat (i + 4))"
    using assms by (simp add: length_encode_ascii is_ascii_take)
  then have pay: "array_slice_from (encode str) (int (length (encode (substring str 0 (i + 4)))))
      = encode (drop (nat (i + 4)) str)"
    using assms by (simp add: sub slice_from_drop drop_encode_ascii min_def)
  have hd: "i \<noteq> - 1 \<Longrightarrow> substring str 0 i = take (nat i) str"
    using i by (simp add: substring_prefix)
  show ?thesis
    using pay hd
    by (simp add: getHeadersAndDataFromText_def toString_encode_ascii [OF assms] Let_def
        i_def [symmetric])
qed

section \<open>Properties of the metadata loop\<close>

lemma type_names_distinct: "js ''SessionEnd'' \<noteq> js ''WordBoundary''"
  by (simp add: js_def)

lemma loop_all_SessionEnd:
  "\<forall>m\<in>set pre. Type m = js ''SessionEnd'' \<Longrightarrow>
     parseMetadata_loop unescape st (pre @ rest) = parseMetadata_loop unescape st rest"
  by (induction pre) (simp_all add: type_names_distinct)

lemma loop_no_WordBoundary_iff:
  "parseMetadata_loop unescape st ms = Inl (UnexpectedResponse (js ''No WordBoundary metadata found''))
     \<longleftrightarrow> (\<forall>m\<in>set ms. Type m = js ''SessionEnd'')"
  by (induction ms) (auto simp: Let_def type_names_distinct)

lemma loop_stops_at_WordBoundary:
  "Type wb = js ''WordBoundary'' \<Longrightarrow>
     parseMetadata_loop unescape st (pre @ wb # rest) = parseMetadata_loop unescape st (pre @ [wb])"
  by (induction pre) (simp_all add: Let_def)

lemma is_ascii_body: "is_ascii empty_metadata_body"
  by (simp add: empty_metadata_body_def is_ascii_def js_def)

lemma loop_filter_SessionEnd:
  "parseMetadata_loop unescape st (filter (\<lambda>e. Type e \<noteq> js ''SessionEnd'') ms)
     = parseMetadata_loop unescape st ms"
  by (induction ms) (simp_all add: Let_def type_names_distinct)

lemma is_ascii_word_then_viseme_body: "is_ascii word_then_viseme_body"
  by (simp add: word_then_viseme_body_def is_ascii_def js_def)

text \<open>
  C5, as the code has it. In a body whose \<open>Metadata\<close> array is \<open>metadata\<close>: entries of
  type \<open>SessionEnd\<close> are passed over, so the result is the one of the array without
  them; an entry \<open>m\<close> of a type other than \<open>WordBoundary\<close> and \<open>SessionEnd\<close> raises the
  fault \<open>Unknown metadata type\<close> when it is the first entry of the array that is not a
  \<open>SessionEnd\<close>; when that first entry is a \<open>WordBoundary\<close> the call returns its chunk;
  the entries after a \<open>WordBoundary\<close> entry are not read, so none of them raises
  anything; and the fault
  \<open>No WordBoundary metadata found\<close> is raised exactly when every entry of the array is a
  \<open>SessionEnd\<close>, the array with no entry included.
\<close>

theorem parseMetadata_faults:
  assumes "JSON_parse (toString dat) = Inr metadata"
  shows
    "parseMetadata JSON_parse unescape st dat
       = parseMetadata_loop unescape st (filter (\<lambda>e. Type e \<noteq> js ''SessionEnd'') metadata)
     \<and> (metadata = pre @ m # rest \<and> (\<forall>e\<in>set pre. Type e = js ''SessionEnd'')
          \<and> Type m \<noteq> js ''WordBoundary'' \<and> Type m \<noteq> js ''SessionEnd''
        \<longrightarrow> parseMetadata JSON_parse unescape st dat
              = Inl (UnknownResponse (js ''Unknown metadata type: '' @ Type m)))
     \<and> (metadata = pre @ m # rest \<and> (\<forall>e\<in>set pre. Type e = js ''SessionEnd'')
          \<and> Type m = js ''WordBoundary''
        \<longrightarrow> parseMetadata JSON_parse unescape st dat
              = Inr \<lparr>type = WordBoundary, data = None, duration = Some (Duration m),
                     offset = Some (num_add (Offset m) (offsetCompensation st)),
                     text' = Some (unescape (Text m))\<rparr>)
     \<and> (metadata = pre @ m # rest \<and> Type m = js ''WordBoundary''
        \<longrightarrow> parseMetadata JSON_parse unescape st dat
              = parseMetadata_loop unescape st (pre @ [m]))
     \<and> (parseMetadata JSON_parse unescape st dat
           = Inl (UnexpectedResponse (js ''No WordBoundary metadata found''))
        \<longleftrightarrow> (\<forall>e\<in>set metadata. Type e = js ''SessionEnd''))"
proof -
  have p: "parseMetadata JSON_parse unescape st dat = parseMetadata_loop unescape st metadata"
    using assms by (simp add: parseMetadata_def)
  have q: "metadata = pre @ m # rest \<and> Type m = js ''WordBoundary''
      \<longrightarrow> parseMetadata_loop unescape st metadata = parseMetadata_loop unescape st (pre @ [m])"
    using loop_stops_at_WordBoundary [of m unescape st pre rest] by simp
  show ?thesis
    using q
    by (simp add: p loop_no_WordBoundary_iff loop_filter_SessionEnd)
       (auto simp: loop_all_SessionEnd Let_def)
qed

theorem parseMetadata_faults_witness:
  "parseMetadata
      (JSON_parse_of [(empty_metadata_body,
         [meta_entry ''SessionEnd'' 0 0 [], meta_entry ''Viseme'' 7 0 [], meta_entry ''WordBoundary'' 1 2 ''a''])])
      id initial_state (encode empty_metadata_body)
     = Inl (UnknownResponse (js ''Unknown metadata type: Viseme''))
   \<and> parseMetadata
      (JSON_parse_of [(empty_metadata_body,
         [meta_entry ''SessionEnd'' 0 0 [], meta_entry ''WordBoundary'' 1 2 ''a''])])
      id initial_state (encode empty_metadata_body)
     = Inr \<lparr>type = WordBoundary, data = None, duration = Some (Finite 2),
            offset = Some (num_add (Finite 1) (Finite 0)), text' = Some (js ''a'')\<rparr>
   \<and> parseMetadata
      (JSON_parse_of [(empty_metadata_body, [meta_entry ''SessionEnd'' 0 0 []])])
      id initial_state (encode empty_metadata_body)
     = Inl (UnexpectedResponse (js ''No WordBoundary metadata found''))"
proof -
  note r = toString_encode_ascii [OF is_ascii_body]
  have a: "JSON_parse_of [(empty_metadata_body, ms)] (toString (encode empty_metadata_body)) = Inr ms"
    for ms by (simp add: r JSON_parse_of_def)
  note t = parseMetadata_faults [where dat = "encode empty_metadata_body" and unescape = id
      and st = initial_state]
  show ?thesis
    using
      t [where JSON_parse = "JSON_parse_of [(empty_metadata_body,
            [meta_entry ''SessionEnd'' 0 0 [], meta_entry ''Viseme'' 7 0 [],
             meta_entry ''WordBoundary'' 1 2 ''a''])]",
          OF a, of "[meta_entry ''SessionEnd'' 0 0 []]" "meta_entry ''Viseme'' 7 0 []"
            "[meta_entry ''WordBoundary'' 1 2 ''a'']"]
      t [where JSON_parse = "JSON_parse_of [(empty_metadata_body,
            [meta_entry ''SessionEnd'' 0 0 [], meta_entry ''WordBoundary'' 1 2 ''a''])]",
          OF a, of "[meta_entry ''SessionEnd'' 0 0 []]" "meta_entry ''WordBoundary'' 1 2 ''a''" "[]"]
      t [where JSON_parse = "JSON_parse_of [(empty_metadata_body, [meta_entry ''SessionEnd'' 0 0 []])]",
          OF a, of "[]" "meta_entry ''SessionEnd'' 0 0 []" "[]"]
    by (simp add: meta_entry_def js_def initial_state_def)
qed

text \<open>
  The fault \<open>No WordBoundary metadata found\<close> on the body \<^verbatim>\<open>{"Metadata":[]}\<close>, whose array
  is empty; and no fault on a body whose array holds a \<open>WordBoundary\<close> entry and then
  an entry of the type \<open>Viseme\<close>: the call returns the chunk of the first entry and
  never reads the second.
\<close>

theorem parseMetadata_faults_counterexample:
  "JSON_parse_of [(empty_metadata_body, [])] (toString (encode empty_metadata_body)) = Inr []
   \<and> parseMetadata (JSON_parse_of [(empty_metadata_body, [])]) id initial_state
        (encode empty_metadata_body)
     = Inl (UnexpectedResponse (js ''No WordBoundary metadata found''))
   \<and> JSON_parse_of
        [(word_then_viseme_body,
          [meta_entry ''WordBoundary'' 1000 500 ''Hello'', meta_entry ''Viseme'' 1000 0 []])]
        (toString (encode word_then_viseme_body))
     = Inr [meta_entry ''WordBoundary'' 1000 500 ''Hello'', meta_entry ''Viseme'' 1000 0 []]
   \<and> Type (meta_entry ''Viseme'' 1000 0 []) = js ''Viseme''
   \<and> parseMetadata
        (JSON_parse_of
          [(word_then_viseme_body,
            [meta_entry ''WordBoundary'' 1000 500 ''Hello'', meta_entry ''Viseme'' 1000 0 []])])
        id initial_state (encode word_then_viseme_body)
     = Inr \<lparr>type = WordBoundary, data = None, duration = Some (Finite 500),
            offset = Some (num_add (Finite 1000) (Finite 0)), text' = Some (js ''Hello'')\<rparr>"
  by (simp add: toString_encode_ascii [OF is_ascii_body]
      toString_encode_ascii [OF is_ascii_word_then_viseme_body] JSON_parse_of_def parseMetadata_def
      meta_entry_def initial_state_def)

text \<open>
  C10. The loop returns at the first \<open>WordBoundary\<close> entry: whatever entries \<open>rest\<close>
  follow it in the array, the result is the one of the array that ends with the entry.
  After entries of type \<open>SessionEnd\<close> only, the result is the one chunk made from that
  entry, so a later entry of an unknown type raises nothing and a later \<open>WordBoundary\<close>
  adds nothing.
\<close>

theorem parseMetadata_returns_at_first_WordBoundary:
  assumes "Type wb = js ''WordBoundary''"
  shows
    "parseMetadata_loop unescape st (pre @ wb # rest) = parseMetadata_loop unescape st (pre @ [wb])
     \<and> ((\<forall>e\<in>set pre. Type e = js ''SessionEnd'') \<longrightarrow>
          parseMetadata_loop unescape st (pre @ wb # rest)
            = Inr \<lparr>type = WordBoundary, data = None, duration = Some (Duration wb),
                   offset = Some (num_add (Offset wb) (offsetCompensation st)),
                   text' = Some (unescape (Text wb))\<rparr>)"
  using assms loop_stops_at_WordBoundary [OF assms, of unescape st pre rest]
  by (simp add: loop_all_SessionEnd Let_def)

theorem parseMetadata_returns_at_first_WordBoundary_witness:
  "parseMetadata_loop id initial_state
      ([meta_entry ''SessionEnd'' 0 0 []] @ meta_entry ''WordBoundary'' 1000 500 ''one''
         # [meta_entry ''Viseme'' 3 4 [], meta_entry ''WordBoundary'' 2000 500 ''two''])
     = Inr \<lparr>type = WordBoundary, data = None, duration = Some (Finite 500),
            offset = Some (num_add (Finite 1000) (Finite 0)), text' = Some (js ''one'')\<rparr>"
proof -
  have t: "Type (meta_entry ''WordBoundary'' 1000 500 ''one'') = js ''WordBoundary''"
    by (simp add: meta_entry_def)
  show ?thesis
    using parseMetadata_returns_at_first_WordBoundary [OF t, of id initial_state
        "[meta_entry ''SessionEnd'' 0 0 []]"
        "[meta_entry ''Viseme'' 3 4 [], meta_entry ''WordBoundary'' 2000 500 ''two'']"]
    by (simp add: meta_entry_def initial_state_def js_def)
qed

section \<open>Rounding of integers\<close>

lemma ilog2_le:
  assumes "0 < q"
  shows "2 powi (ilog2 q) \<le> q"
proof -
  obtain a b where ab: "quotient_of q = (a, b)" by (cases "quotient_of q")
  have b: "0 < b" using ab quotient_of_denom_pos by blast
  have q: "q = of_int a / of_int b" using ab quotient_of_div by blast
  have a: "0 < a" using assms b q by (simp add: zero_less_divide_iff)
  define la where "la = floorlog 2 (nat a)"
  define lb where "lb = floorlog 2 (nat b)"
  have la: "2 ^ (la - 1) \<le> nat a" and lb: "nat b < 2 ^ lb"
    using floorlog_bounds [of "nat a" 2] floorlog_bounds [of "nat b" 2] a b
    by (simp_all add: la_def lb_def)
  have la1: "1 \<le> la" using a by (simp add: la_def floorlog_def)
  show ?thesis
  proof (cases "2 powi (int la - int lb) \<le> q")
    case True
    then show ?thesis by (simp add: ilog2_def ab la_def lb_def)
  next
    case False
    then have e: "ilog2 q = int la - int lb - 1"
      by (simp add: ilog2_def ab la_def lb_def Let_def)
    have "int la - int lb - 1 = int (la - 1) - int lb" using la1 by simp
    moreover have "(2::rat) powi (int (la - 1) - int lb) = 2 powi int (la - 1) / 2 powi int lb"
      by (rule power_int_diff) simp
    ultimately have "(2::rat) powi (int la - int lb - 1) = 2 ^ (la - 1) / 2 ^ lb"
      by (simp only: power_int_of_nat)
    also have "\<dots> \<le> of_int a / 2 ^ lb"
    proof -
      have "(2::int) ^ (la - 1) \<le> a" using la a by (simp add: le_nat_iff)
      then have "(of_int ((2::int) ^ (la - 1)) :: rat) \<le> of_int a" by (simp only: of_int_le_iff)
      then show ?thesis by (simp add: divide_right_mono)
    qed
    also have "\<dots> \<le> of_int a / of_int b"
    proof -
      have "b < 2 ^ lb" using lb b by (simp add: nat_less_iff)
      then have "(of_int b :: rat) \<le> of_int ((2::int) ^ lb)" by (simp only: of_int_le_iff)
      then have "(of_int b :: rat) \<le> 2 ^ lb" by simp
      moreover have "(0::rat) < of_int b" using b by simp
      moreover have "(0::rat) \<le> of_int a" using a by simp
      ultimately show ?thesis by (simp add: frac_le)
    qed
    finally show ?thesis using e q by simp
  qed
qed

lemma round_half_even_of_int: "round_half_even (of_int k) = k"
  by (simp add: round_half_even_def)

lemma fl_exact:
  fixes m :: int and j :: nat
  assumes "0 < m" "m < 2 ^ 53" "j \<le> 900"
  shows "fl (of_int m * 2 ^ j) = Finite (of_int m * 2 ^ j)"
proof -
  define q :: rat where "q = of_int m * 2 ^ j"
  have q0: "0 < q" using assms(1) by (simp add: q_def)
  define e where "e = ilog2 q"
  define p where "p = max (e - 52) (- 1074)"
  have "(of_int m :: rat) < of_int (2 ^ 53)" using assms(2) by (simp only: of_int_less_iff)
  then have mlt: "(of_int m :: rat) < 2 ^ 53" by simp
  then have "q < 2 ^ 53 * 2 ^ j" by (simp add: q_def)
  then have qlt: "q < 2 powi (53 + int j)" by (simp add: power_int_add)
  have "2 powi e \<le> q" using ilog2_le [OF q0] by (simp add: e_def)
  then have elt: "(2::rat) powi e < 2 powi (53 + int j)" using qlt by simp
  have "e < 53 + int j"
  proof (rule ccontr)
    assume "\<not> e < 53 + int j"
    then have "53 + int j \<le> e" by simp
    then have "(2::rat) powi (53 + int j) \<le> 2 powi e"
      by (intro power_int_increasing) simp_all
    with elt show False by simp
  qed
  then have pj: "p \<le> int j" by (simp add: p_def)
  define k where "k = m * 2 ^ nat (int j - p)"
  have "(2::rat) ^ j = 2 powi (int j - p) * 2 powi p"
    by (simp add: power_int_add [symmetric])
  then have split: "q = of_int k * 2 powi p"
    using pj by (simp add: q_def k_def power_int_nonneg_exp)
  then have quot: "q / 2 powi p = of_int k" by simp
  have "q < 2 ^ 53 * 2 ^ 900"
  proof -
    have "(2::rat) ^ j \<le> 2 ^ 900" using assms(3) by (intro power_increasing) simp_all
    then have "of_int m * (2::rat) ^ j \<le> of_int m * 2 ^ 900"
      using assms(1) by (simp add: mult_left_mono)
    also have "\<dots> < 2 ^ 53 * 2 ^ 900" using mlt by simp
    finally show ?thesis by (simp add: q_def)
  qed
  also have "\<dots> \<le> (2::rat) ^ 1024" by (simp add: power_add [symmetric])
  finally have big: "\<not> 2 powi 1024 \<le> q" by simp
  have absq: "\<bar>q\<bar> = q" using q0 by simp
  have "rat_of_int (round_half_even (q / 2 powi p)) * 2 powi p = q"
    by (simp only: quot round_half_even_of_int split [symmetric])
  then have r: "rat_of_int (round_half_even (\<bar>q\<bar> / 2 powi max (ilog2 \<bar>q\<bar> - 52) (- 1074))) *
      2 powi max (ilog2 \<bar>q\<bar> - 52) (- 1074) = q"
    by (simp only: p_def e_def absq)
  have "fl q = Finite q"
    unfolding fl_def Let_def r using q0 big by simp
  then show ?thesis by (simp add: q_def)
qed

lemma fl_numeral:
  assumes "(numeral k :: int) < 2 ^ 53"
  shows "fl (numeral k) = Finite (numeral k)"
  using fl_exact [of "numeral k" 0] assms by simp

lemma fl_zero: "fl 0 = Finite 0"
  by (simp add: fl_def)

lemma ilog2_less:
  assumes "0 < q"
  shows "q < 2 powi (ilog2 q + 1)"
proof -
  obtain a b where ab: "quotient_of q = (a, b)" by (cases "quotient_of q")
  have b: "0 < b" using ab quotient_of_denom_pos by blast
  have q: "q = of_int a / of_int b" using ab quotient_of_div by blast
  have a: "0 < a" using assms b q by (simp add: zero_less_divide_iff)
  define la where "la = floorlog 2 (nat a)"
  define lb where "lb = floorlog 2 (nat b)"
  have la: "nat a < 2 ^ la" and lb: "2 ^ (lb - 1) \<le> nat b"
    using floorlog_bounds [of "nat a" 2] floorlog_bounds [of "nat b" 2] a b
    by (simp_all add: la_def lb_def)
  have lb1: "1 \<le> lb" using b by (simp add: lb_def floorlog_def)
  have up: "q < 2 powi (int la - int lb + 1)"
  proof -
    have "a < 2 ^ la" using la a by (simp add: nat_less_iff)
    then have "(of_int a :: rat) < of_int ((2::int) ^ la)" by (simp only: of_int_less_iff)
    then have alt: "(of_int a :: rat) < 2 ^ la" by simp
    have "(2::int) ^ (lb - 1) \<le> b" using lb b by (simp add: le_nat_iff)
    then have "(of_int ((2::int) ^ (lb - 1)) :: rat) \<le> of_int b" by (simp only: of_int_le_iff)
    then have ble: "(2::rat) ^ (lb - 1) \<le> of_int b" by simp
    have "q < 2 ^ la / of_int b"
      using alt b by (simp add: q divide_strict_right_mono)
    also have "\<dots> \<le> 2 ^ la / 2 ^ (lb - 1)"
      using ble by (simp add: frac_le)
    also have "\<dots> = 2 powi (int la - int (lb - 1))"
    proof -
      have "(2::rat) powi (int la - int (lb - 1)) = 2 powi int la / 2 powi int (lb - 1)"
        by (rule power_int_diff) simp
      then show ?thesis by (simp only: power_int_of_nat)
    qed
    also have "int la - int (lb - 1) = int la - int lb + 1" using lb1 by simp
    finally show ?thesis .
  qed
  show ?thesis
  proof (cases "2 powi (int la - int lb) \<le> q")
    case True
    then have "ilog2 q = int la - int lb"
      by (simp add: ilog2_def ab la_def lb_def)
    then show ?thesis using up by simp
  next
    case False
    then have "ilog2 q = int la - int lb - 1"
      by (simp add: ilog2_def ab la_def lb_def Let_def)
    then show ?thesis using False by simp
  qed
qed

lemma ilog2_unique:
  assumes "2 powi e \<le> q" "q < 2 powi (e + 1)"
  shows "ilog2 q = e"
proof -
  have q0: "0 < q" using assms(1) by (rule less_le_trans [rotated]) simp
  have lo: "2 powi (ilog2 q) \<le> q" and hi: "q < 2 powi (ilog2 q + 1)"
    using ilog2_le [OF q0] ilog2_less [OF q0] by simp_all
  have "\<not> ilog2 q < e"
  proof
    assume "ilog2 q < e"
    then have "(2::rat) powi (ilog2 q + 1) \<le> 2 powi e"
      by (intro power_int_increasing) simp_all
    with hi assms(1) show False by simp
  qed
  moreover have "\<not> e < ilog2 q"
  proof
    assume "e < ilog2 q"
    then have "(2::rat) powi (e + 1) \<le> 2 powi (ilog2 q)"
      by (intro power_int_increasing) simp_all
    with lo assms(2) show False by simp
  qed
  ultimately show ?thesis by simp
qed

lemma fl_normal:
  assumes "2 powi (p + 52) \<le> q" "q < 2 powi (p + 53)" "- 1074 \<le> p"
      and "round_half_even (q / 2 powi p) = n" "(of_int n :: rat) * 2 powi p < 2 powi 1024"
  shows "fl q = Finite (of_int n * 2 powi p)"
proof -
  have q0: "0 < q" using assms(1) by (rule less_le_trans [rotated]) simp
  have "q < 2 powi (p + 52 + 1)" using assms(2) by (simp add: add.commute add.left_commute)
  then have e: "ilog2 q = p + 52" using assms(1) by (intro ilog2_unique)
  have absq: "\<bar>q\<bar> = q" using q0 by simp
  have m: "max (ilog2 \<bar>q\<bar> - 52) (- 1074) = p" using assms(3) by (simp add: absq e)
  show ?thesis
    unfolding fl_def Let_def m using q0 assms(4,5) by (simp add: absq)
qed

lemma floor_rat_numeral:
  "\<lfloor>(numeral a :: rat) / numeral b\<rfloor> = numeral a div numeral b"
  using floor_divide_of_int_eq [of "numeral a" "numeral b", where ?'a = rat] by simp

lemmas fl_eval = round_half_even_def Let_def floor_rat_numeral

text \<open>
  Values that are not binary64 numbers: a tie between two neighbours goes to the even
  one, and the tenth goes to its nearest neighbour.
\<close>

lemma fl_tie_to_even: "fl (2 ^ 53 + 1) = Finite (2 ^ 53)" "fl (2 ^ 53 + 3) = Finite (2 ^ 53 + 4)"
  using fl_normal [of 1 "2 ^ 53 + 1" "2 ^ 52"] fl_normal [of 1 "2 ^ 53 + 3" "2 ^ 52 + 2"]
  by (simp_all add: fl_eval)

lemma fl_one_tenth: "fl (1 / 10) = Finite (3602879701896397 / 36028797018963968)"
  using fl_normal [of "- 56" "1 / 10" 7205759403792794] by (simp add: fl_eval)

lemma num_add_Finite: "num_add (Finite x) (Finite y) = fl (x + y)"
  by (simp add: num_add_def)

section \<open>The handlers on the example frames\<close>

lemma is_ascii_append: "is_ascii (a @ b) = (is_ascii a \<and> is_ascii b)"
  by (simp add: is_ascii_def)

lemma is_ascii_CRLF: "is_ascii CRLF"
  by (simp add: is_ascii_def CRLF_def)

lemma is_ascii_first_body: "is_ascii first_body"
  by (simp add: first_body_def is_ascii_def js_def)

lemma is_ascii_second_body: "is_ascii second_body"
  by (simp add: second_body_def is_ascii_def js_def)

lemma text_frame_decode:
  assumes "is_ascii body" "path \<in> {''audio.metadata'', ''turn.end'', ''turn.start'', ''response'', ''other''}"
  shows "getHeadersAndDataFromText (encode (text_frame path body)) =
     ([js ''X-RequestId'' \<mapsto> js ''0a1b2c3d'',
       js ''Content-Type'' \<mapsto> js ''application/json; charset=utf-8'',
       js ''Path'' \<mapsto> js path], encode body)"
proof -
  have a: "is_ascii (text_frame path body)"
    using assms by (auto simp: text_frame_def is_ascii_append is_ascii_CRLF) (simp_all add: is_ascii_def js_def)
  show ?thesis
    using assms(2)
    apply (simp only: text_decode_ascii [OF a])
    apply (auto simp add: text_frame_def indexOf_def CRLF_def js_def Let_def split_def split_limit_def
       header_line_def set_header_def trim_def is_white_space_def)
    done
qed

lemma path_names_distinct:
  "js ''turn.end'' \<noteq> js ''audio.metadata''" "js ''turn.start'' \<noteq> js ''audio.metadata''"
  "js ''response'' \<noteq> js ''audio.metadata''" "js ''turn.start'' \<noteq> js ''turn.end''"
  "js ''response'' \<noteq> js ''turn.end''" "js ''other'' \<noteq> js ''audio.metadata''"
  "js ''other'' \<noteq> js ''turn.end''" "js ''other'' \<noteq> js ''response''"
  "js ''other'' \<noteq> js ''turn.start''"
  by (simp_all add: js_def)

lemma handleMessage_metadata:
  assumes "getHeadersAndDataFromText (encode str) = (hs, body)"
      and "hs (js ''Path'') = Some (js ''audio.metadata'')"
      and "parseMetadata JSON_parse unescape (state s) body = Inr c"
  shows "handleMessage JSON_parse unescape (StringData str) s =
     push (Chunk c)
       (s\<lparr>state := (state s)\<lparr>lastDurationOffset :=
           num_add (number_of (offset c)) (number_of (duration c))\<rparr>\<rparr>)"
  using assms by (simp add: handleMessage_def Let_def)

lemma handleMessage_turn_end:
  assumes "getHeadersAndDataFromText (encode str) = (hs, body)"
      and "hs (js ''Path'') = Some (js ''turn.end'')"
  shows "handleMessage JSON_parse unescape (StringData str) s =
     s\<lparr>state := (state s)\<lparr>offsetCompensation := lastDurationOffset (state s)\<rparr>,
       closeRequested := True\<rparr>"
  using assms by (simp add: handleMessage_def Let_def path_names_distinct)

lemma flag_handleMessage:
  "streamWasCalled (state (handleMessage JSON_parse unescape dat s)) = streamWasCalled (state s)"
  by (simp add: handleMessage_def Let_def state_push state_processBinaryData
      split: message_data.splits prod.splits sum.splits)

lemma flag_handle_event:
  "streamWasCalled (state (handle_event JSON_parse unescape s ev)) = streamWasCalled (state s)"
  by (simp add: handle_event_def flag_handleMessage state_push split: ws_event.splits)

lemma flag_handle_events:
  "streamWasCalled (state (handle_events JSON_parse unescape s evs)) = streamWasCalled (state s)"
  by (induction evs arbitrary: s) (simp_all add: flag_handle_event)

lemma flag_stream_segment:
  "stream_segment JSON_parse unescape st events = (ys, r, st') \<Longrightarrow>
     streamWasCalled st' = streamWasCalled st"
  by (auto simp: stream_segment_def Let_def flag_handle_events split: prod.splits)

lemma flag_stream_texts:
  "stream_texts JSON_parse unescape st texts = (ys, r, st') \<Longrightarrow>
     streamWasCalled st' = streamWasCalled st"
proof (induction texts arbitrary: st ys r st')
  case Nil
  then show ?case by simp
next
  case (Cons a texts)
  obtain partial events where a: "a = (partial, events)" by (cases a)
  obtain ys1 r1 st1 where
    seg: "stream_segment JSON_parse unescape (st\<lparr>partialText := partial\<rparr>) events = (ys1, r1, st1)"
    by (cases "stream_segment JSON_parse unescape (st\<lparr>partialText := partial\<rparr>) events")
  have example_interval_first: "streamWasCalled st1 = streamWasCalled st"
    using flag_stream_segment [OF seg] by simp
  show ?case
  proof (cases r1)
    case Returned
    obtain ys2 r2 st2 where
      rest: "stream_texts JSON_parse unescape st1 texts = (ys2, r2, st2)"
      by (cases "stream_texts JSON_parse unescape st1 texts")
    have "st' = st2" using Cons.prems a seg Returned rest by simp
    then show ?thesis using Cons.IH [OF rest] example_interval_first by simp
  next
    case (Raised e)
    then have "st' = st1" using Cons.prems a seg by simp
    then show ?thesis using example_interval_first by simp
  next
    case Pending
    then have "st' = st1" using Cons.prems a seg by simp
    then show ?thesis using example_interval_first by simp
  qed
qed

lemma consume_before_close:
  assumes "\<forall>item\<in>set before. \<exists>c. item = Chunk c \<and> type c = WordBoundary"
  shows "snd (consume False (before @ Close # after))
           = Raised (NoAudioReceived (js ''No audio was received.''))
         \<and> (\<forall>c\<in>set (fst (consume False (before @ Close # after))). type c = WordBoundary)
         \<and> map Chunk (fst (consume False (before @ Close # after))) = before"
  using assms by (induction before) (auto split: prod.splits)

lemma handle_turn_start:
  "is_ascii body \<Longrightarrow>
     handleMessage JSON_parse unescape (StringData (text_frame ''turn.start'' body)) s = s"
  by (simp add: handleMessage_def text_frame_decode Let_def path_names_distinct)

lemma handle_turn_end:
  "is_ascii body \<Longrightarrow>
     handleMessage JSON_parse unescape (StringData (text_frame ''turn.end'' body)) s =
       s\<lparr>state := (state s)\<lparr>offsetCompensation := lastDurationOffset (state s)\<rparr>,
         closeRequested := True\<rparr>"
  by (simp add: handleMessage_turn_end [OF text_frame_decode])

lemma handle_audio_frame:
  "processBinaryData example_audio_frame s =
     push (Chunk \<lparr>type = audio, data = Some [0xFF, 0xF3, 0x44], duration = None,
                  offset = None, text' = None\<rparr>) s"
  using decode_Inr_length [OF example_audio_frame_decode]
  by (simp add: processBinaryData_def example_audio_frame_decode push_def js_def)

lemma bodies_distinct: "second_body \<noteq> first_body"
  by (simp add: first_body_def second_body_def js_def)

lemma handle_first_body:
  "handleMessage example_JSON_parse id (StringData (text_frame ''audio.metadata'' first_body)) s =
     push (Chunk \<lparr>type = WordBoundary, data = None, duration = Some (Finite 500),
                  offset = Some (num_add (Finite 1000) (offsetCompensation (state s))),
                  text' = Some (js ''Hello'')\<rparr>)
       (s\<lparr>state := (state s)\<lparr>lastDurationOffset :=
            num_add (num_add (Finite 1000) (offsetCompensation (state s))) (Finite 500)\<rparr>\<rparr>)"
  by (simp add: handleMessage_def text_frame_decode is_ascii_first_body Let_def parseMetadata_def
      toString_encode_ascii example_JSON_parse_def JSON_parse_of_def meta_entry_def number_of_def)

lemma handle_second_body:
  "handleMessage example_JSON_parse id (StringData (text_frame ''audio.metadata'' second_body)) s =
     push (Chunk \<lparr>type = WordBoundary, data = None, duration = Some (Finite 700),
                  offset = Some (num_add (Finite 0) (offsetCompensation (state s))),
                  text' = Some (js ''world'')\<rparr>)
       (s\<lparr>state := (state s)\<lparr>lastDurationOffset :=
            num_add (num_add (Finite 0) (offsetCompensation (state s))) (Finite 700)\<rparr>\<rparr>)"
  by (simp add: handleMessage_def text_frame_decode is_ascii_second_body Let_def parseMetadata_def
      toString_encode_ascii example_JSON_parse_def JSON_parse_of_def meta_entry_def number_of_def
      bodies_distinct)

lemma is_ascii_braces: "is_ascii (js ''{}'')"
  by (simp add: is_ascii_def js_def)

lemma two_segment_session:
  "stream example_JSON_parse id initial_state
     [(encode (js ''Hello''),
       [MessageEvent (StringData (text_frame ''turn.start'' (js ''{}''))),
        MessageEvent (Uint8ArrayData example_audio_frame),
        MessageEvent (StringData (text_frame ''audio.metadata'' first_body)),
        MessageEvent (StringData (text_frame ''turn.end'' (js ''{}''))),
        CloseEvent]),
      (encode (js ''world''),
       [MessageEvent (StringData (text_frame ''audio.metadata'' second_body)),
        MessageEvent (ArrayBufferData example_audio_frame),
        MessageEvent (StringData (text_frame ''turn.end'' (js ''{}''))),
        CloseEvent])]
   = ([\<lparr>type = audio, data = Some [0xFF, 0xF3, 0x44], duration = None, offset = None, text' = None\<rparr>,
       \<lparr>type = WordBoundary, data = None, duration = Some (Finite 500),
        offset = Some (Finite 1000), text' = Some (js ''Hello'')\<rparr>,
       \<lparr>type = WordBoundary, data = None, duration = Some (Finite 700),
        offset = Some (Finite 1500), text' = Some (js ''world'')\<rparr>,
       \<lparr>type = audio, data = Some [0xFF, 0xF3, 0x44], duration = None, offset = None, text' = None\<rparr>],
      Returned,
      \<lparr>partialText = encode (js ''world''), offsetCompensation = Finite 2200,
       lastDurationOffset = Finite 2200, streamWasCalled = True\<rparr>)"
  by (simp add: stream_def stream_segment_def handle_event_def handleMessage_def [of _ _ "Uint8ArrayData _"]
      handleMessage_def [of _ _ "ArrayBufferData _"]
      handle_turn_start handle_turn_end handle_audio_frame handle_first_body handle_second_body
      is_ascii_braces push_def initial_state_def num_add_Finite fl_numeral fl_zero)

section \<open>Offsets across segments\<close>

text \<open>
  C2. A text frame whose path is \<open>audio.metadata\<close> and whose first entry other than
  \<open>SessionEnd\<close> is the \<open>WordBoundary\<close> entry \<open>m\<close> puts one chunk in the queue: its
  offset is the offset of \<open>m\<close> plus \<open>offsetCompensation\<close>, and \<open>lastDurationOffset\<close>
  becomes that offset plus the duration of \<open>m\<close>. A frame whose path is \<open>turn.end\<close> sets
  \<open>offsetCompensation\<close> to \<open>lastDurationOffset\<close>. In the session of two segments, the
  first with a word at offset 1000 of duration 500 and the second with a word at offset 0,
  the caller receives the second word at offset 1500.
\<close>

theorem word_boundary_offsets:
  "(getHeadersAndDataFromText (encode str) = (hs, body)
      \<and> hs (js ''Path'') = Some (js ''audio.metadata'')
      \<and> JSON_parse (toString body) = Inr (pre @ m # rest)
      \<and> (\<forall>e\<in>set pre. Type e = js ''SessionEnd'') \<and> Type m = js ''WordBoundary''
    \<longrightarrow> handleMessage JSON_parse unescape (StringData str) s =
          s\<lparr>state := (state s)\<lparr>lastDurationOffset :=
                 num_add (num_add (Offset m) (offsetCompensation (state s))) (Duration m)\<rparr>,
            messageQueue := messageQueue s @
              [Chunk \<lparr>type = WordBoundary, data = None, duration = Some (Duration m),
                      offset = Some (num_add (Offset m) (offsetCompensation (state s))),
                      text' = Some (unescape (Text m))\<rparr>]\<rparr>)
   \<and> (getHeadersAndDataFromText (encode str) = (hs, body)
        \<and> hs (js ''Path'') = Some (js ''turn.end'')
      \<longrightarrow> handleMessage JSON_parse unescape (StringData str) s =
            s\<lparr>state := (state s)\<lparr>offsetCompensation := lastDurationOffset (state s)\<rparr>,
              closeRequested := True\<rparr>)
   \<and> stream example_JSON_parse id initial_state
       [(encode (js ''Hello''),
         [MessageEvent (StringData (text_frame ''turn.start'' (js ''{}''))),
          MessageEvent (Uint8ArrayData example_audio_frame),
          MessageEvent (StringData (text_frame ''audio.metadata'' first_body)),
          MessageEvent (StringData (text_frame ''turn.end'' (js ''{}''))),
          CloseEvent]),
        (encode (js ''world''),
         [MessageEvent (StringData (text_frame ''audio.metadata'' second_body)),
          MessageEvent (ArrayBufferData example_audio_frame),
          MessageEvent (StringData (text_frame ''turn.end'' (js ''{}''))),
          CloseEvent])]
     = ([\<lparr>type = audio, data = Some [0xFF, 0xF3, 0x44], duration = None, offset = None,
          text' = None\<rparr>,
         \<lparr>type = WordBoundary, data = None, duration = Some (Finite 500),
          offset = Some (Finite 1000), text' = Some (js ''Hello'')\<rparr>,
         \<lparr>type = WordBoundary, data = None, duration = Some (Finite 700),
          offset = Some (Finite 1500), text' = Some (js ''world'')\<rparr>,
         \<lparr>type = audio, data = Some [0xFF, 0xF3, 0x44], duration = None, offset = None,
          text' = None\<rparr>],
        Returned,
        \<lparr>partialText = encode (js ''world''), offsetCompensation = Finite 2200,
         lastDurationOffset = Finite 2200, streamWasCalled = True\<rparr>)"
proof (intro conjI impI)
  assume a: "getHeadersAndDataFromText (encode str) = (hs, body)
      \<and> hs (js ''Path'') = Some (js ''audio.metadata'')
      \<and> JSON_parse (toString body) = Inr (pre @ m # rest)
      \<and> (\<forall>e\<in>set pre. Type e = js ''SessionEnd'') \<and> Type m = js ''WordBoundary''"
  then have "parseMetadata JSON_parse unescape (state s) body =
      Inr \<lparr>type = WordBoundary, data = None, duration = Some (Duration m),
           offset = Some (num_add (Offset m) (offsetCompensation (state s))),
           text' = Some (unescape (Text m))\<rparr>"
    by (simp add: parseMetadata_def loop_all_SessionEnd Let_def)
  with a show "handleMessage JSON_parse unescape (StringData str) s =
          s\<lparr>state := (state s)\<lparr>lastDurationOffset :=
                 num_add (num_add (Offset m) (offsetCompensation (state s))) (Duration m)\<rparr>,
            messageQueue := messageQueue s @
              [Chunk \<lparr>type = WordBoundary, data = None, duration = Some (Duration m),
                      offset = Some (num_add (Offset m) (offsetCompensation (state s))),
                      text' = Some (unescape (Text m))\<rparr>]\<rparr>"
    using handleMessage_metadata [of str hs body JSON_parse unescape s]
    by (simp add: push_def number_of_def)
next
  assume "getHeadersAndDataFromText (encode str) = (hs, body)
        \<and> hs (js ''Path'') = Some (js ''turn.end'')"
  then show "handleMessage JSON_parse unescape (StringData str) s =
            s\<lparr>state := (state s)\<lparr>offsetCompensation := lastDurationOffset (state s)\<rparr>,
              closeRequested := True\<rparr>"
    using handleMessage_turn_end [of str hs body] by simp
next
  show "stream example_JSON_parse id initial_state
       [(encode (js ''Hello''),
         [MessageEvent (StringData (text_frame ''turn.start'' (js ''{}''))),
          MessageEvent (Uint8ArrayData example_audio_frame),
          MessageEvent (StringData (text_frame ''audio.metadata'' first_body)),
          MessageEvent (StringData (text_frame ''turn.end'' (js ''{}''))),
          CloseEvent]),
        (encode (js ''world''),
         [MessageEvent (StringData (text_frame ''audio.metadata'' second_body)),
          MessageEvent (ArrayBufferData example_audio_frame),
          MessageEvent (StringData (text_frame ''turn.end'' (js ''{}''))),
          CloseEvent])]
     = ([\<lparr>type = audio, data = Some [0xFF, 0xF3, 0x44], duration = None, offset = None,
          text' = None\<rparr>,
         \<lparr>type = WordBoundary, data = None, duration = Some (Finite 500),
          offset = Some (Finite 1000), text' = Some (js ''Hello'')\<rparr>,
         \<lparr>type = WordBoundary, data = None, duration = Some (Finite 700),
          offset = Some (Finite 1500), text' = Some (js ''world'')\<rparr>,
         \<lparr>type = audio, data = Some [0xFF, 0xF3, 0x44], duration = None, offset = None,
          text' = None\<rparr>],
        Returned,
        \<lparr>partialText = encode (js ''world''), offsetCompensation = Finite 2200,
         lastDurationOffset = Finite 2200, streamWasCalled = True\<rparr>)"
    by (rule two_segment_session)
qed

theorem word_boundary_offsets_witness:
  "handleMessage example_JSON_parse id (StringData (text_frame ''audio.metadata'' second_body))
      \<lparr>state = initial_state\<lparr>offsetCompensation := Finite 1500, lastDurationOffset := Finite 1500\<rparr>,
       messageQueue = [], closeRequested = False\<rparr>
     = \<lparr>state = initial_state\<lparr>offsetCompensation := Finite 1500, lastDurationOffset := Finite 2200\<rparr>,
        messageQueue =
          [Chunk \<lparr>type = WordBoundary, data = None, duration = Some (Finite 700),
                  offset = Some (Finite 1500), text' = Some (js ''world'')\<rparr>],
        closeRequested = False\<rparr>
   \<and> handleMessage example_JSON_parse id (StringData (text_frame ''turn.end'' (js ''{}'')))
      \<lparr>state = initial_state\<lparr>lastDurationOffset := Finite 1500\<rparr>,
       messageQueue = [], closeRequested = False\<rparr>
     = \<lparr>state = initial_state\<lparr>offsetCompensation := Finite 1500, lastDurationOffset := Finite 1500\<rparr>,
        messageQueue = [], closeRequested = True\<rparr>"
proof -
  have p: "example_JSON_parse (toString (encode second_body))
      = Inr ([] @ meta_entry ''WordBoundary'' 0 700 ''world'' # [])"
    by (simp add: toString_encode_ascii is_ascii_second_body example_JSON_parse_def
        JSON_parse_of_def bodies_distinct)
  have example_ticks_digits: "getHeadersAndDataFromText (encode (text_frame ''audio.metadata'' second_body)) =
     ([js ''X-RequestId'' \<mapsto> js ''0a1b2c3d'',
       js ''Content-Type'' \<mapsto> js ''application/json; charset=utf-8'',
       js ''Path'' \<mapsto> js ''audio.metadata''], encode second_body)"
    by (simp add: text_frame_decode is_ascii_second_body)
  have d2: "getHeadersAndDataFromText (encode (text_frame ''turn.end'' (js ''{}''))) =
     ([js ''X-RequestId'' \<mapsto> js ''0a1b2c3d'',
       js ''Content-Type'' \<mapsto> js ''application/json; charset=utf-8'',
       js ''Path'' \<mapsto> js ''turn.end''], encode (js ''{}''))"
    by (simp add: text_frame_decode is_ascii_braces)
  note t = word_boundary_offsets [where JSON_parse = example_JSON_parse and unescape = id]
  show ?thesis
    using
      t [where str = "text_frame ''audio.metadata'' second_body" and body = "encode second_body"
          and pre = "[]" and m = "meta_entry ''WordBoundary'' 0 700 ''world''" and rest = "[]"
          and s = "\<lparr>state = initial_state\<lparr>offsetCompensation := Finite 1500,
                      lastDurationOffset := Finite 1500\<rparr>, messageQueue = [], closeRequested = False\<rparr>"
          and hs = "[js ''X-RequestId'' \<mapsto> js ''0a1b2c3d'',
            js ''Content-Type'' \<mapsto> js ''application/json; charset=utf-8'',
            js ''Path'' \<mapsto> js ''audio.metadata'']"]
      t [where str = "text_frame ''turn.end'' (js ''{}'')" and body = "encode (js ''{}'')"
          and s = "\<lparr>state = initial_state\<lparr>lastDurationOffset := Finite 1500\<rparr>,
                    messageQueue = [], closeRequested = False\<rparr>"
          and hs = "[js ''X-RequestId'' \<mapsto> js ''0a1b2c3d'',
            js ''Content-Type'' \<mapsto> js ''application/json; charset=utf-8'',
            js ''Path'' \<mapsto> js ''turn.end'']"]
      p example_ticks_digits d2
    by (simp add: meta_entry_def initial_state_def num_add_Finite fl_numeral fl_zero)
qed

section \<open>Sessions without audio\<close>

lemma stream_segment_no_audio:
  assumes "messageQueue (handle_events JSON_parse unescape
             \<lparr>state = st, messageQueue = [], closeRequested = False\<rparr> events)
           = before @ Close # after"
      and "\<forall>item\<in>set before. \<exists>c. item = Chunk c \<and> type c = WordBoundary"
  shows "fst (snd (stream_segment JSON_parse unescape st events))
           = Raised (NoAudioReceived (js ''No audio was received.''))"
    and "\<forall>c\<in>set (fst (stream_segment JSON_parse unescape st events)). type c \<noteq> audio"
    and "map Chunk (fst (stream_segment JSON_parse unescape st events)) = before"
  using consume_before_close [OF assms(2), of after] assms(1)
  by (auto simp: stream_segment_def Let_def split: prod.splits)

text \<open>
  C8. When the queue of a sub-session holds \<^verbatim>\<open>'close'\<close> after word-boundary chunks only
  (no audio chunk and no error came before the socket closed), the sub-session yields
  those chunks, none of them audio, and raises \<open>NoAudioReceived\<close>; the stream ends
  there, without opening the segments that follow. A sub-session that receives
  \<open>turn.end\<close> and then the close yields nothing and raises \<open>NoAudioReceived\<close>.
\<close>

theorem no_audio_received:
  "(messageQueue (handle_events JSON_parse unescape
        \<lparr>state = st\<lparr>partialText := partial\<rparr>, messageQueue = [], closeRequested = False\<rparr> events)
      = before @ Close # after
      \<and> (\<forall>item\<in>set before. \<exists>c. item = Chunk c \<and> type c = WordBoundary)
    \<longrightarrow> fst (snd (stream_segment JSON_parse unescape (st\<lparr>partialText := partial\<rparr>) events))
          = Raised (NoAudioReceived (js ''No audio was received.''))
        \<and> (\<forall>c\<in>set (fst (stream_segment JSON_parse unescape (st\<lparr>partialText := partial\<rparr>) events)).
              type c \<noteq> audio)
        \<and> map Chunk (fst (stream_segment JSON_parse unescape (st\<lparr>partialText := partial\<rparr>) events))
          = before
        \<and> fst (snd (stream_texts JSON_parse unescape st ((partial, events) # texts)))
          = Raised (NoAudioReceived (js ''No audio was received.''))
        \<and> fst (stream_texts JSON_parse unescape st ((partial, events) # texts))
          = fst (stream_segment JSON_parse unescape (st\<lparr>partialText := partial\<rparr>) events))
   \<and> (is_ascii body \<longrightarrow>
        stream_segment JSON_parse unescape st
          [MessageEvent (StringData (text_frame ''turn.end'' body)), CloseEvent]
        = ([], Raised (NoAudioReceived (js ''No audio was received.'')),
           st\<lparr>offsetCompensation := lastDurationOffset st\<rparr>))"
proof (intro conjI impI)
  assume a: "messageQueue (handle_events JSON_parse unescape
        \<lparr>state = st\<lparr>partialText := partial\<rparr>, messageQueue = [], closeRequested = False\<rparr> events)
      = before @ Close # after
      \<and> (\<forall>item\<in>set before. \<exists>c. item = Chunk c \<and> type c = WordBoundary)"
  note seg = stream_segment_no_audio [of JSON_parse unescape "st\<lparr>partialText := partial\<rparr>" events
      before after]
  show r: "fst (snd (stream_segment JSON_parse unescape (st\<lparr>partialText := partial\<rparr>) events))
          = Raised (NoAudioReceived (js ''No audio was received.''))"
    using a seg(1) by simp
  show "\<forall>c\<in>set (fst (stream_segment JSON_parse unescape (st\<lparr>partialText := partial\<rparr>) events)).
              type c \<noteq> audio"
    using a seg(2) by simp
  show "map Chunk (fst (stream_segment JSON_parse unescape (st\<lparr>partialText := partial\<rparr>) events))
          = before"
    using a seg(3) by simp
  show "fst (snd (stream_texts JSON_parse unescape st ((partial, events) # texts)))
          = Raised (NoAudioReceived (js ''No audio was received.''))"
    using r by (auto split: prod.splits outcome.splits)
  show "fst (stream_texts JSON_parse unescape st ((partial, events) # texts))
          = fst (stream_segment JSON_parse unescape (st\<lparr>partialText := partial\<rparr>) events)"
    using r by (auto split: prod.splits outcome.splits)
next
  assume "is_ascii body"
  then show "stream_segment JSON_parse unescape st
          [MessageEvent (StringData (text_frame ''turn.end'' body)), CloseEvent]
        = ([], Raised (NoAudioReceived (js ''No audio was received.'')),
           st\<lparr>offsetCompensation := lastDurationOffset st\<rparr>)"
    by (simp add: stream_segment_def handle_event_def handle_turn_end push_def)
qed

theorem no_audio_received_witness:
  "stream example_JSON_parse id initial_state
     [(encode (js ''Hello''),
       [MessageEvent (StringData (text_frame ''audio.metadata'' first_body)),
        MessageEvent (StringData (text_frame ''turn.end'' (js ''{}''))),
        CloseEvent]),
      (encode (js ''world''),
       [MessageEvent (Uint8ArrayData example_audio_frame), CloseEvent])]
   = ([\<lparr>type = WordBoundary, data = None, duration = Some (Finite 500),
        offset = Some (Finite 1000), text' = Some (js ''Hello'')\<rparr>],
      Raised (NoAudioReceived (js ''No audio was received.'')),
      \<lparr>partialText = encode (js ''Hello''), offsetCompensation = Finite 1500,
       lastDurationOffset = Finite 1500, streamWasCalled = True\<rparr>)
   \<and> stream_segment example_JSON_parse id initial_state
        [MessageEvent (StringData (text_frame ''turn.end'' (js ''{}''))), CloseEvent]
     = ([], Raised (NoAudioReceived (js ''No audio was received.'')), initial_state)"
proof -
  let ?st = "initial_state\<lparr>streamWasCalled := True\<rparr>"
  let ?events = "[MessageEvent (StringData (text_frame ''audio.metadata'' first_body)),
        MessageEvent (StringData (text_frame ''turn.end'' (js ''{}''))),
        CloseEvent]"
  let ?wb = "\<lparr>type = WordBoundary, data = None, duration = Some (Finite 500),
        offset = Some (Finite 1000), text' = Some (js ''Hello'')\<rparr>"
  have q: "messageQueue (handle_events example_JSON_parse id
        \<lparr>state = ?st\<lparr>partialText := encode (js ''Hello'')\<rparr>, messageQueue = [],
          closeRequested = False\<rparr> ?events)
      = [Chunk ?wb] @ Close # []"
    by (simp add: handle_event_def handleMessage_def [of _ _ "Uint8ArrayData _"]
        handle_turn_end handle_audio_frame handle_first_body is_ascii_braces push_def
        initial_state_def num_add_Finite fl_numeral fl_zero)
  have st: "snd (snd (stream_segment example_JSON_parse id
        (?st\<lparr>partialText := encode (js ''Hello'')\<rparr>) ?events))
      = \<lparr>partialText = encode (js ''Hello''), offsetCompensation = Finite 1500,
       lastDurationOffset = Finite 1500, streamWasCalled = True\<rparr>"
    by (simp add: stream_segment_def handle_event_def handleMessage_def [of _ _ "Uint8ArrayData _"]
        handle_turn_end handle_audio_frame handle_first_body is_ascii_braces push_def
        initial_state_def num_add_Finite fl_numeral fl_zero split: prod.splits)
  note t = no_audio_received [where JSON_parse = example_JSON_parse and unescape = id]
  note t1 = t [where st = ?st and partial = "encode (js ''Hello'')" and events = ?events
        and before = "[Chunk ?wb]" and after = "[]"
        and texts = "[(encode (js ''world''),
            [MessageEvent (Uint8ArrayData example_audio_frame), CloseEvent])]"]
  have seg: "stream_segment example_JSON_parse id (?st\<lparr>partialText := encode (js ''Hello'')\<rparr>) ?events
      = ([?wb], Raised (NoAudioReceived (js ''No audio was received.'')),
         \<lparr>partialText = encode (js ''Hello''), offsetCompensation = Finite 1500,
          lastDurationOffset = Finite 1500, streamWasCalled = True\<rparr>)"
    using t1 q st
    by (cases "stream_segment example_JSON_parse id (?st\<lparr>partialText := encode (js ''Hello'')\<rparr>) ?events")
       auto
  have a: "stream example_JSON_parse id initial_state
     [(encode (js ''Hello''), ?events),
      (encode (js ''world''),
       [MessageEvent (Uint8ArrayData example_audio_frame), CloseEvent])]
   = ([?wb], Raised (NoAudioReceived (js ''No audio was received.'')),
      \<lparr>partialText = encode (js ''Hello''), offsetCompensation = Finite 1500,
       lastDurationOffset = Finite 1500, streamWasCalled = True\<rparr>)"
    using seg by (simp add: stream_def initial_state_def)
  have b: "stream_segment example_JSON_parse id initial_state
        [MessageEvent (StringData (text_frame ''turn.end'' (js ''{}''))), CloseEvent]
     = ([], Raised (NoAudioReceived (js ''No audio was received.'')), initial_state)"
    using t [where st = initial_state and body = "js ''{}''"]
    by (simp add: is_ascii_braces initial_state_def)
  from a b show ?thesis by simp
qed

section \<open>The single use of the stream\<close>

lemma flag_stream:
  "stream JSON_parse unescape st texts = (ys, r, st') \<Longrightarrow> streamWasCalled st'"
proof (cases "streamWasCalled st")
  case True
  assume "stream JSON_parse unescape st texts = (ys, r, st')"
  then show ?thesis using True by (simp add: stream_def)
next
  case False
  assume "stream JSON_parse unescape st texts = (ys, r, st')"
  then have "stream_texts JSON_parse unescape (st\<lparr>streamWasCalled := True\<rparr>) texts = (ys, r, st')"
    using False by (simp add: stream_def)
  from flag_stream_texts [OF this] show ?thesis by simp
qed

text \<open>
  C9, as the code has it. A call of \<^verbatim>\<open>stream\<close> raises nothing and changes nothing: the
  guard is in the body, which runs when the generator is resumed for the first time. On
  a state whose flag \<open>streamWasCalled\<close> is set, the body yields nothing and raises the
  error \<open>stream can only be called once.\<close> The body sets the flag before anything else
  and no handler clears it: once the body of one generator has started, however it went
  on (it returned, it raised, or it is still waiting for the socket) and after any events
  that the handlers of its sub-session have seen so far, the body of every other
  generator raises, whenever that generator was made. While no body has started, calls
  do not set the flag: after two calls the generator resumed first streams the texts.
\<close>

theorem stream_only_once:
  "call_stream st = (Inr SuspendedStart, st)
   \<and> (streamWasCalled st \<longrightarrow>
        stream JSON_parse unescape (snd (call_stream st)) texts
          = ([], Raised (Error (js ''stream can only be called once.'')), st))
   \<and> (stream JSON_parse unescape st texts = (yielded, result, st') \<longrightarrow>
        stream JSON_parse' unescape' (snd (call_stream st')) texts'
          = ([], Raised (Error (js ''stream can only be called once.'')), st'))
   \<and> (let s = handle_events JSON_parse unescape
                  \<lparr>state = st\<lparr>streamWasCalled := True, partialText := partial\<rparr>,
                   messageQueue = [], closeRequested = False\<rparr> events
        in stream JSON_parse' unescape' (snd (call_stream (state s))) texts'
             = ([], Raised (Error (js ''stream can only be called once.'')), state s))
   \<and> (\<not> streamWasCalled st \<longrightarrow>
        stream JSON_parse unescape (snd (call_stream (snd (call_stream st)))) texts
          = stream_texts JSON_parse unescape (st\<lparr>streamWasCalled := True\<rparr>) texts)"
proof (intro conjI impI)
  show "call_stream st = (Inr SuspendedStart, st)" by (simp add: call_stream_def)
next
  assume "streamWasCalled st"
  then show "stream JSON_parse unescape (snd (call_stream st)) texts
        = ([], Raised (Error (js ''stream can only be called once.'')), st)"
    by (simp add: stream_def call_stream_def)
next
  assume "stream JSON_parse unescape st texts = (yielded, result, st')"
  then have "streamWasCalled st'" by (rule flag_stream)
  then show "stream JSON_parse' unescape' (snd (call_stream st')) texts'
          = ([], Raised (Error (js ''stream can only be called once.'')), st')"
    by (simp add: stream_def call_stream_def)
next
  show "let s = handle_events JSON_parse unescape
                  \<lparr>state = st\<lparr>streamWasCalled := True, partialText := partial\<rparr>,
                   messageQueue = [], closeRequested = False\<rparr> events
        in stream JSON_parse' unescape' (snd (call_stream (state s))) texts'
             = ([], Raised (Error (js ''stream can only be called once.'')), state s)"
    by (simp add: Let_def stream_def flag_handle_events call_stream_def)
next
  assume "\<not> streamWasCalled st"
  then show "stream JSON_parse unescape (snd (call_stream (snd (call_stream st)))) texts
          = stream_texts JSON_parse unescape (st\<lparr>streamWasCalled := True\<rparr>) texts"
    by (simp add: stream_def call_stream_def)
qed

theorem stream_only_once_witness:
  "stream example_JSON_parse id initial_state
      [(encode (js ''Hello''),
        [MessageEvent (StringData (text_frame ''turn.end'' (js ''{}''))), CloseEvent])]
     = ([], Raised (NoAudioReceived (js ''No audio was received.'')),
        initial_state\<lparr>streamWasCalled := True, partialText := encode (js ''Hello'')\<rparr>)
   \<and> stream example_JSON_parse id
        (snd (call_stream
          (initial_state\<lparr>streamWasCalled := True, partialText := encode (js ''Hello'')\<rparr>)))
        [(encode (js ''Hello''), [MessageEvent (Uint8ArrayData example_audio_frame), CloseEvent])]
     = ([], Raised (Error (js ''stream can only be called once.'')),
        initial_state\<lparr>streamWasCalled := True, partialText := encode (js ''Hello'')\<rparr>)"
proof -
  have first: "stream example_JSON_parse id initial_state
      [(encode (js ''Hello''),
        [MessageEvent (StringData (text_frame ''turn.end'' (js ''{}''))), CloseEvent])]
     = ([], Raised (NoAudioReceived (js ''No audio was received.'')),
        initial_state\<lparr>streamWasCalled := True, partialText := encode (js ''Hello'')\<rparr>)"
    by (simp add: stream_def stream_segment_def handle_event_def handle_turn_end is_ascii_braces
        push_def initial_state_def)
  note t = stream_only_once [where st = initial_state and JSON_parse = example_JSON_parse
        and unescape = id and JSON_parse' = example_JSON_parse and unescape' = id
        and texts = "[(encode (js ''Hello''),
          [MessageEvent (StringData (text_frame ''turn.end'' (js ''{}''))), CloseEvent])]"
        and yielded = "[]" and result = "Raised (NoAudioReceived (js ''No audio was received.''))"
        and st' = "initial_state\<lparr>streamWasCalled := True, partialText := encode (js ''Hello'')\<rparr>"
        and texts' = "[(encode (js ''Hello''),
          [MessageEvent (Uint8ArrayData example_audio_frame), CloseEvent])]"]
  from t [THEN conjunct2, THEN conjunct2, THEN conjunct1, THEN mp, OF first] first
  show ?thesis by (simp only: simp_thms)
qed

text \<open>
  Two calls on a new engine, before any generator is resumed: neither call raises and
  the flag stays clear. The generator of the second call, resumed first, streams the
  session of two segments to its end; the generator of the first call, resumed after
  that, is the one that raises.
\<close>

theorem stream_second_call_counterexample:
  "call_stream initial_state = (Inr SuspendedStart, initial_state)
   \<and> call_stream (snd (call_stream initial_state)) = (Inr SuspendedStart, initial_state)
   \<and> stream example_JSON_parse id (snd (call_stream (snd (call_stream initial_state))))
     [(encode (js ''Hello''),
       [MessageEvent (StringData (text_frame ''turn.start'' (js ''{}''))),
        MessageEvent (Uint8ArrayData example_audio_frame),
        MessageEvent (StringData (text_frame ''audio.metadata'' first_body)),
        MessageEvent (StringData (text_frame ''turn.end'' (js ''{}''))),
        CloseEvent]),
      (encode (js ''world''),
       [MessageEvent (StringData (text_frame ''audio.metadata'' second_body)),
        MessageEvent (ArrayBufferData example_audio_frame),
        MessageEvent (StringData (text_frame ''turn.end'' (js ''{}''))),
        CloseEvent])]
   = ([\<lparr>type = audio, data = Some [0xFF, 0xF3, 0x44], duration = None, offset = None, text' = None\<rparr>,
       \<lparr>type = WordBoundary, data = None, duration = Some (Finite 500),
        offset = Some (Finite 1000), text' = Some (js ''Hello'')\<rparr>,
       \<lparr>type = WordBoundary, data = None, duration = Some (Finite 700),
        offset = Some (Finite 1500), text' = Some (js ''world'')\<rparr>,
       \<lparr>type = audio, data = Some [0xFF, 0xF3, 0x44], duration = None, offset = None, text' = None\<rparr>],
      Returned,
      \<lparr>partialText = encode (js ''world''), offsetCompensation = Finite 2200,
       lastDurationOffset = Finite 2200, streamWasCalled = True\<rparr>)
   \<and> stream example_JSON_parse id
        \<lparr>partialText = encode (js ''world''), offsetCompensation = Finite 2200,
         lastDurationOffset = Finite 2200, streamWasCalled = True\<rparr>
        [(encode (js ''Hello''), [MessageEvent (Uint8ArrayData example_audio_frame), CloseEvent])]
     = ([], Raised (Error (js ''stream can only be called once.'')),
        \<lparr>partialText = encode (js ''world''), offsetCompensation = Finite 2200,
         lastDurationOffset = Finite 2200, streamWasCalled = True\<rparr>)"
proof -
  have c: "snd (call_stream (snd (call_stream initial_state))) = initial_state"
    "call_stream initial_state = (Inr SuspendedStart, initial_state)"
    by (simp_all add: call_stream_def)
  have d: "stream example_JSON_parse id
        \<lparr>partialText = encode (js ''world''), offsetCompensation = Finite 2200,
         lastDurationOffset = Finite 2200, streamWasCalled = True\<rparr>
        [(encode (js ''Hello''), [MessageEvent (Uint8ArrayData example_audio_frame), CloseEvent])]
     = ([], Raised (Error (js ''stream can only be called once.'')),
        \<lparr>partialText = encode (js ''world''), offsetCompensation = Finite 2200,
         lastDurationOffset = Finite 2200, streamWasCalled = True\<rparr>)"
    by (simp add: stream_def)
  show ?thesis
    by (simp only: c d two_segment_session snd_conv simp_thms)
qed

section \<open>The token\<close>

lemma trunc_to_zero_nonneg: "0 \<le> q \<Longrightarrow> trunc_to_zero q = \<lfloor>q\<rfloor>"
  by (simp add: trunc_to_zero_def)

lemma sub_mod_300:
  assumes "0 \<le> x"
  shows "num_sub (Finite x) (num_mod (Finite x) (Finite 300)) = fl (300 * of_int \<lfloor>x / 300\<rfloor>)"
proof -
  have "0 \<le> x / 300" using assms by simp
  then have "num_mod (Finite x) (Finite 300) = Finite (x - 300 * of_int \<lfloor>x / 300\<rfloor>)"
    by (simp add: num_mod_def trunc_to_zero_nonneg)
  then show ?thesis by (simp add: num_sub_def num_neg_def num_add_def)
qed

lemma fl_of_int:
  assumes "0 \<le> n" "n < 2 ^ 53"
  shows "fl (of_int n) = Finite (of_int n)"
proof (cases "n = 0")
  case True
  then show ?thesis by (simp add: fl_zero)
next
  case False
  then show ?thesis using assms fl_exact [of n 0] by simp
qed

lemma fl_ticks:
  assumes "0 \<le> k" "k < 1537228673"
  shows "fl (of_int (300 * k) * 10000000) = Finite (of_int (300 * k) * 10000000)"
proof (cases "k = 0")
  case True
  then show ?thesis by (simp add: fl_zero)
next
  case False
  have e: "(of_int (300 * k) :: rat) * 10000000 = of_int (k * 5859375) * 2 ^ 9" by simp
  have "k * 5859375 < 2 ^ 53" using assms(2) by simp
  moreover have "0 < k * 5859375" using False assms(1) by simp
  ultimately show ?thesis using fl_exact [of "k * 5859375" 9] by (simp only: e)
qed

lemma toFixed0_of_int:
  assumes "0 \<le> N" "N < 10 ^ 21"
  shows "toFixed0 Number_toString (Finite (of_int N)) = decimal (nat N)"
proof -
  have "(of_int N :: rat) < of_int (10 ^ 21)" using assms(2) by (simp only: of_int_less_iff)
  then have "\<not> (10 :: rat) ^ 21 \<le> \<bar>of_int N\<bar>" using assms(1) by simp
  moreover have "\<lfloor>\<bar>of_int N :: rat\<bar> + 1 / 2\<rfloor> = N"
    using assms(1) by (simp add: floor_unique)
  moreover have "\<not> (of_int N :: rat) < 0" using assms(1) by simp
  ultimately show ?thesis by (simp add: toFixed0_def del: of_int_less_0_iff)
qed

lemma seven_zeros: "num_div S_TO_NS (Finite 100) = Finite 10000000"
  by (simp add: num_div_def S_TO_NS_def fl_numeral)

lemma strToHash_bucket:
  assumes "num_add (getUnixTimestamp now skew) WIN_EPOCH = Finite x" "0 \<le> x"
  shows "strToHash Number_toString TOKEN now skew =
     toFixed0 Number_toString (num_mul (fl (300 * of_int \<lfloor>x / 300\<rfloor>)) (Finite 10000000)) @ TOKEN"
  using assms by (simp add: strToHash_def Let_def sub_mod_300 seven_zeros)

lemma strToHash_ticks:
  assumes "num_add (getUnixTimestamp now skew) WIN_EPOCH = Finite x" "0 \<le> x" "x < 461168601900"
  shows "strToHash Number_toString TOKEN now skew =
     decimal (nat (\<lfloor>x / 300\<rfloor> * 300 * 10 ^ 7)) @ TOKEN"
proof -
  define k where "k = \<lfloor>x / 300\<rfloor>"
  define n where "n = 300 * k"
  have k0: "0 \<le> k" using assms(2) by (simp add: k_def)
  then have n0: "0 \<le> n" by (simp add: n_def)
  have "x / 300 < of_int 1537228673" using assms(3) by simp
  then have k1: "k < 1537228673" unfolding k_def by (simp only: floor_less_iff)
  then have n1: "n < 461168601900" by (simp add: n_def)
  then have n2: "n < 2 ^ 53" by simp
  have a: "fl (300 * of_int \<lfloor>x / 300\<rfloor>) = Finite (of_int n)"
    using fl_of_int [OF n0 n2] by (simp add: n_def k_def)
  have b: "num_mul (Finite (of_int n)) (Finite 10000000) = Finite (of_int (n * 10000000))"
    using fl_ticks [OF k0 k1] by (simp add: num_mul_def n_def)
  have c: "toFixed0 Number_toString (Finite (of_int (n * 10000000))) = decimal (nat (n * 10000000))"
    using n0 n1 by (intro toFixed0_of_int) simp_all
  show ?thesis
    using strToHash_bucket [OF assms(1,2)]
    by (simp only: a b c) (simp add: n_def k_def mult.commute)
qed

text \<open>
  C1, as the code has it. Let \<open>x\<close> be the seconds since 1601 as the code computes them:
  the sum of \<open>getUnixTimestamp\<close> and \<open>WIN_EPOCH\<close>, a binary64 number. When \<open>x\<close> is
  finite and not negative, the token is the digest of a string that depends on \<open>x\<close>
  through \<open>\<lfloor>x / 300\<rfloor>\<close> only, so two calls under one skew whose sums lie in the same
  interval of 300 seconds return the same token. For \<open>x\<close> below \<open>461168601900\<close> every
  later step is exact, and the string is the decimal numeral of
  \<open>\<lfloor>x / 300\<rfloor> \<sqdot> 300 \<sqdot> 10\<^sup>7\<close> followed by the constant.
\<close>

theorem generateSecMsGec_token:
  assumes "num_add (getUnixTimestamp now skew) WIN_EPOCH = Finite x" and "0 \<le> x"
  shows
    "(x < 461168601900 \<longrightarrow>
        generateSecMsGec sha256val Number_toString TOKEN now skew
          = sha256val (decimal (nat (\<lfloor>x / 300\<rfloor> * 300 * 10 ^ 7)) @ TOKEN))
     \<and> (num_add (getUnixTimestamp now' skew) WIN_EPOCH = Finite x' \<and> 0 \<le> x'
          \<and> \<lfloor>x' / 300\<rfloor> = \<lfloor>x / 300\<rfloor>
        \<longrightarrow> generateSecMsGec sha256val Number_toString TOKEN now' skew
              = generateSecMsGec sha256val Number_toString TOKEN now skew)"
proof (intro conjI impI)
  assume "x < 461168601900"
  then show "generateSecMsGec sha256val Number_toString TOKEN now skew
      = sha256val (decimal (nat (\<lfloor>x / 300\<rfloor> * 300 * 10 ^ 7)) @ TOKEN)"
    using strToHash_ticks [OF assms] by (simp add: generateSecMsGec_def)
next
  assume a: "num_add (getUnixTimestamp now' skew) WIN_EPOCH = Finite x' \<and> 0 \<le> x'
          \<and> \<lfloor>x' / 300\<rfloor> = \<lfloor>x / 300\<rfloor>"
  then have "strToHash Number_toString TOKEN now' skew = strToHash Number_toString TOKEN now skew"
    using strToHash_bucket [OF assms, of Number_toString TOKEN]
      strToHash_bucket [of now' skew x' Number_toString TOKEN] by simp
  then show "generateSecMsGec sha256val Number_toString TOKEN now' skew
              = generateSecMsGec sha256val Number_toString TOKEN now skew"
    by (simp add: generateSecMsGec_def)
qed

lemma example_clock_first:
  "num_add (getUnixTimestamp (Finite 1700000000123) (Finite (- 5 / 2))) WIN_EPOCH
     = Finite (6996347373550567 / 524288)"
proof -
  have a: "fl (1700000000123 / 1000) = Finite (7130316800515899 / 4194304)"
    using fl_normal [of "- 22" "1700000000123 / 1000" 7130316800515899] by (simp add: fl_eval)
  have b: "fl (7130316800515899 / 4194304 + - 5 / 2) = Finite (7130316790030139 / 4194304)"
    using fl_normal [of "- 22" "7130316800515899 / 4194304 + - 5 / 2" 7130316790030139]
    by (simp add: fl_eval)
  have c: "fl (7130316790030139 / 4194304 + 11644473600) = Finite (6996347373550567 / 524288)"
    using fl_normal [of "- 19" "7130316790030139 / 4194304 + 11644473600" 6996347373550567]
    by (simp add: fl_eval)
  have s1: "num_div (Finite 1700000000123) (Finite 1000) = Finite (7130316800515899 / 4194304)"
    using a by (simp add: num_div_def)
  have s2: "num_add (Finite (7130316800515899 / 4194304)) (Finite (- 5 / 2))
      = Finite (7130316790030139 / 4194304)"
    by (simp only: num_add_def prod.case number.case b)
  have s3: "num_add (Finite (7130316790030139 / 4194304)) (Finite 11644473600)
      = Finite (6996347373550567 / 524288)"
    by (simp only: num_add_def prod.case number.case c)
  show ?thesis
    by (simp only: getUnixTimestamp_def WIN_EPOCH_def s1 s2 s3)
qed

lemma example_clock_second:
  "num_add (getUnixTimestamp (Finite 1700000099999) (Finite (- 5 / 2))) WIN_EPOCH
     = Finite (1749086856478589 / 131072)"
proof -
  have a: "fl (1700000099999 / 1000) = Finite (3565158609713103 / 2097152)"
    using fl_normal [of "- 22" "1700000099999 / 1000" 7130317219426206] by (simp add: fl_eval)
  have b: "fl (3565158609713103 / 2097152 + - 5 / 2) = Finite (3565158604470223 / 2097152)"
    using fl_normal [of "- 22" "3565158609713103 / 2097152 + - 5 / 2" 7130317208940446]
    by (simp add: fl_eval)
  have c: "fl (3565158604470223 / 2097152 + 11644473600) = Finite (1749086856478589 / 131072)"
    using fl_normal [of "- 19" "3565158604470223 / 2097152 + 11644473600" 6996347425914356]
    by (simp add: fl_eval)
  have s1: "num_div (Finite 1700000099999) (Finite 1000) = Finite (3565158609713103 / 2097152)"
    using a by (simp add: num_div_def)
  have s2: "num_add (Finite (3565158609713103 / 2097152)) (Finite (- 5 / 2))
      = Finite (3565158604470223 / 2097152)"
    by (simp only: num_add_def prod.case number.case b)
  have s3: "num_add (Finite (3565158604470223 / 2097152)) (Finite 11644473600)
      = Finite (1749086856478589 / 131072)"
    by (simp only: num_add_def prod.case number.case c)
  show ?thesis
    by (simp only: getUnixTimestamp_def WIN_EPOCH_def s1 s2 s3)
qed

lemma example_interval_first: "\<lfloor>(6996347373550567 / 524288 :: rat) / 300\<rfloor> = 44481578"
  by (simp add: floor_rat_numeral)

lemma example_interval_second: "\<lfloor>(1749086856478589 / 131072 :: rat) / 300\<rfloor> = 44481578"
  by (simp add: floor_rat_numeral)

lemma example_ticks_digits: "decimal 133444734000000000 = js ''133444734000000000''"
  by (simp add: js_def)

theorem generateSecMsGec_token_witness:
  "num_add (getUnixTimestamp (Finite 1700000000123) (Finite (- 5 / 2))) WIN_EPOCH
     = Finite (6996347373550567 / 524288)
   \<and> num_add (getUnixTimestamp (Finite 1700000099999) (Finite (- 5 / 2))) WIN_EPOCH
     = Finite (1749086856478589 / 131072)
   \<and> generateSecMsGec id (\<lambda>n. []) (js ''T'') (Finite 1700000000123) (Finite (- 5 / 2))
       = js ''133444734000000000'' @ js ''T''
   \<and> generateSecMsGec id (\<lambda>n. []) (js ''T'') (Finite 1700000099999) (Finite (- 5 / 2))
       = js ''133444734000000000'' @ js ''T''"
proof -
  have pos: "(0 :: rat) \<le> 6996347373550567 / 524288" "(0 :: rat) \<le> 1749086856478589 / 131072"
    by simp_all
  have lt: "(6996347373550567 / 524288 :: rat) < 461168601900" by simp
  note t = generateSecMsGec_token [OF example_clock_first pos(1), where sha256val = id
      and Number_toString = "\<lambda>n. []" and TOKEN = "js ''T''" and now' = "Finite 1700000099999"
      and x' = "1749086856478589 / 131072"]
  have n: "nat (44481578 * 300 * 10 ^ 7) = 133444734000000000" by simp
  have a: "generateSecMsGec id (\<lambda>n. []) (js ''T'') (Finite 1700000000123) (Finite (- 5 / 2))
      = js ''133444734000000000'' @ js ''T''"
    using t [THEN conjunct1, THEN mp, OF lt]
    by (simp only: example_interval_first n example_ticks_digits id_apply)
  have s: "\<lfloor>(1749086856478589 / 131072 :: rat) / 300\<rfloor> = \<lfloor>(6996347373550567 / 524288 :: rat) / 300\<rfloor>"
    by (simp only: example_interval_first example_interval_second)
  have b: "generateSecMsGec id (\<lambda>n. []) (js ''T'') (Finite 1700000099999) (Finite (- 5 / 2))
      = generateSecMsGec id (\<lambda>n. []) (js ''T'') (Finite 1700000000123) (Finite (- 5 / 2))"
    using t [THEN conjunct2, THEN mp] example_clock_second pos(2) s by blast
  from a b example_clock_first example_clock_second show ?thesis by (simp only: simp_thms)
qed

lemma num_add_NaN: "num_add a NaN = NaN" "num_add NaN a = NaN"
  by (simp_all add: num_add_def split: number.splits)

lemma num_div_NaN: "num_div NaN b = NaN"
  by (simp add: num_div_def)

lemma fl_uminus: "fl (- q) = num_neg (fl q)"
  by (auto simp: fl_def Let_def num_neg_def)

lemma skewed_clock_first:
  "getUnixTimestamp (Finite 1700000000000) (Finite (- 1 / 4194304))
     = Finite (7130316799999999 / 4194304)"
proof -
  have b: "fl (1700000000 + - 1 / 4194304) = Finite (7130316799999999 / 4194304)"
    using fl_normal [of "- 22" "1700000000 + - 1 / 4194304" 7130316799999999]
    by (simp add: fl_eval)
  have s1: "num_div (Finite 1700000000000) (Finite 1000) = Finite 1700000000"
    by (simp add: num_div_def fl_numeral)
  have s2: "num_add (Finite 1700000000) (Finite (- 1 / 4194304))
      = Finite (7130316799999999 / 4194304)"
    by (simp only: num_add_def prod.case number.case b)
  show ?thesis by (simp only: getUnixTimestamp_def s1 s2)
qed

lemma skewed_clock_second:
  "getUnixTimestamp (Finite 1700000100000) (Finite (- 1 / 4194304))
     = Finite (7130317219430399 / 4194304)"
proof -
  have b: "fl (1700000100 + - 1 / 4194304) = Finite (7130317219430399 / 4194304)"
    using fl_normal [of "- 22" "1700000100 + - 1 / 4194304" 7130317219430399]
    by (simp add: fl_eval)
  have s1: "num_div (Finite 1700000100000) (Finite 1000) = Finite 1700000100"
    by (simp add: num_div_def fl_numeral)
  have s2: "num_add (Finite 1700000100) (Finite (- 1 / 4194304))
      = Finite (7130317219430399 / 4194304)"
    by (simp only: num_add_def prod.case number.case b)
  show ?thesis by (simp only: getUnixTimestamp_def s1 s2)
qed

lemma skewed_sum_first:
  "num_add (Finite (7130316799999999 / 4194304)) WIN_EPOCH = Finite 13344473600"
proof -
  have c: "fl (7130316799999999 / 4194304 + 11644473600) = Finite 13344473600"
    using fl_normal [of "- 19" "7130316799999999 / 4194304 + 11644473600" 6996347374796800]
    by (simp add: fl_eval)
  show ?thesis by (simp only: WIN_EPOCH_def num_add_def prod.case number.case c)
qed

lemma skewed_sum_second:
  "num_add (Finite (7130317219430399 / 4194304)) WIN_EPOCH = Finite 13344473700"
proof -
  have c: "fl (7130317219430399 / 4194304 + 11644473600) = Finite 13344473700"
    using fl_normal [of "- 19" "7130317219430399 / 4194304 + 11644473600" 6996347427225600]
    by (simp add: fl_eval)
  show ?thesis by (simp only: WIN_EPOCH_def num_add_def prod.case number.case c)
qed

lemma skewed_strings:
  "strToHash example_Number_toString (js ''T'') (Finite 1700000000000) (Finite (- 1 / 4194304))
     = js ''133444734000000000T''"
  "strToHash example_Number_toString (js ''T'') (Finite 1700000100000) (Finite (- 1 / 4194304))
     = js ''133444737000000000T''"
proof -
  have a: "num_add (getUnixTimestamp (Finite 1700000000000) (Finite (- 1 / 4194304))) WIN_EPOCH
      = Finite 13344473600"
    by (simp only: skewed_clock_first skewed_sum_first)
  have b: "num_add (getUnixTimestamp (Finite 1700000100000) (Finite (- 1 / 4194304))) WIN_EPOCH
      = Finite 13344473700"
    by (simp only: skewed_clock_second skewed_sum_second)
  show "strToHash example_Number_toString (js ''T'') (Finite 1700000000000) (Finite (- 1 / 4194304))
     = js ''133444734000000000T''"
    using strToHash_ticks [OF a] by (simp add: floor_rat_numeral js_def)
  show "strToHash example_Number_toString (js ''T'') (Finite 1700000100000) (Finite (- 1 / 4194304))
     = js ''133444737000000000T''"
    using strToHash_ticks [OF b] by (simp add: floor_rat_numeral js_def)
qed


lemma early_clock_first:
  "num_add (getUnixTimestamp (Finite 1700000000000) (Finite (- 13344473610))) WIN_EPOCH
     = Finite (- 10)"
proof -
  have s1: "num_div (Finite 1700000000000) (Finite 1000) = Finite 1700000000"
    by (simp add: num_div_def fl_numeral)
  have b: "fl (1700000000 + - 13344473610) = Finite (- 11644473610)"
    using fl_uminus [of 11644473610] by (simp add: fl_numeral num_neg_def)
  have c: "fl (- 11644473610 + 11644473600) = Finite (- 10)"
    using fl_uminus [of 10] by (simp add: fl_numeral num_neg_def)
  have s2: "num_add (Finite 1700000000) (Finite (- 13344473610)) = Finite (- 11644473610)"
    by (simp only: num_add_def prod.case number.case b)
  have s3: "num_add (Finite (- 11644473610)) (Finite 11644473600) = Finite (- 10)"
    by (simp only: num_add_def prod.case number.case c)
  show ?thesis by (simp only: getUnixTimestamp_def WIN_EPOCH_def s1 s2 s3)
qed

lemma early_clock_second:
  "num_add (getUnixTimestamp (Finite 1699999710000) (Finite (- 13344473610))) WIN_EPOCH
     = Finite (- 300)"
proof -
  have s1: "num_div (Finite 1699999710000) (Finite 1000) = Finite 1699999710"
    by (simp add: num_div_def fl_numeral)
  have b: "fl (1699999710 + - 13344473610) = Finite (- 11644473900)"
    using fl_uminus [of 11644473900] by (simp add: fl_numeral num_neg_def)
  have c: "fl (- 11644473900 + 11644473600) = Finite (- 300)"
    using fl_uminus [of 300] by (simp add: fl_numeral num_neg_def)
  have s2: "num_add (Finite 1699999710) (Finite (- 13344473610)) = Finite (- 11644473900)"
    by (simp only: num_add_def prod.case number.case b)
  have s3: "num_add (Finite (- 11644473900)) (Finite 11644473600) = Finite (- 300)"
    by (simp only: num_add_def prod.case number.case c)
  show ?thesis by (simp only: getUnixTimestamp_def WIN_EPOCH_def s1 s2 s3)
qed

lemma early_strings:
  "strToHash example_Number_toString (js ''T'') (Finite 1700000000000) (Finite (- 13344473610))
     = js ''0T''"
  "strToHash example_Number_toString (js ''T'') (Finite 1699999710000) (Finite (- 13344473610))
     = js ''-3000000000T''"
proof -
  have z: "\<lfloor>(1 / 30 :: rat)\<rfloor> = 0" by (rule floor_unique; simp)
  have m1: "num_mod (Finite (- 10)) (Finite 300) = Finite (- 10)"
    by (simp add: num_mod_def trunc_to_zero_def ceiling_def z)
  have m2: "num_mod (Finite (- 300)) (Finite 300) = Finite 0"
    by (simp add: num_mod_def trunc_to_zero_def)
  have d1: "num_sub (Finite (- 10)) (Finite (- 10)) = Finite 0"
    by (simp add: num_sub_def num_neg_def num_add_def fl_zero)
  have d2: "num_sub (Finite (- 300)) (Finite 0) = Finite (- 300)"
    using fl_uminus [of 300] by (simp add: num_sub_def num_neg_def num_add_def fl_numeral)
  have p1: "num_mul (Finite 0) (Finite 10000000) = Finite 0"
    by (simp add: num_mul_def fl_zero)
  have p2: "num_mul (Finite (- 300)) (Finite 10000000) = Finite (- 3000000000)"
    using fl_uminus [of 3000000000] by (simp add: num_mul_def num_neg_def fl_numeral)
  show "strToHash example_Number_toString (js ''T'') (Finite 1700000000000) (Finite (- 13344473610))
     = js ''0T''"
    by (simp add: strToHash_def Let_def early_clock_first m1 d1 p1 seven_zeros toFixed0_def js_def)
  show "strToHash example_Number_toString (js ''T'') (Finite 1699999710000) (Finite (- 13344473610))
     = js ''-3000000000T''"
    by (simp add: strToHash_def Let_def early_clock_second m2 d2 p2 seven_zeros toFixed0_def js_def
        floor_rat_numeral)
qed

lemma num_mod_NaN: "num_mod NaN b = NaN"
  by (simp add: num_mod_def)

lemma num_mul_NaN: "num_mul NaN b = NaN"
  by (simp add: num_mul_def)

lemma NaN_string:
  "strToHash example_Number_toString (js ''T'') (Finite 1700000000000) NaN = js ''NaNT''"
  by (simp add: strToHash_def Let_def getUnixTimestamp_def num_add_NaN num_mod_NaN num_sub_def
      num_neg_def num_mul_NaN toFixed0_def example_Number_toString_def js_def)

lemma late_clock:
  "num_add (getUnixTimestamp (Finite 449524128300000) (Finite 0)) WIN_EPOCH = Finite 461168601900"
  by (simp add: getUnixTimestamp_def WIN_EPOCH_def num_div_def num_add_def fl_numeral)

lemma late_string:
  "strToHash example_Number_toString (js ''T'') (Finite 449524128300000) (Finite 0)
     = js ''4611686019000000512T''"
proof -
  have a: "fl (300 * of_int \<lfloor>(461168601900 :: rat) / 300\<rfloor>) = Finite 461168601900"
    by (simp add: floor_rat_numeral fl_numeral)
  have b: "fl (461168601900 * 10000000) = Finite 4611686019000000512"
    using fl_normal [of 10 "461168601900 * 10000000" 4503599627929688] by (simp add: fl_eval)
  have c: "num_mul (Finite 461168601900) (Finite 10000000) = Finite 4611686019000000512"
    by (simp only: num_mul_def prod.case number.case b)
  have d: "toFixed0 example_Number_toString (Finite 4611686019000000512)
      = js ''4611686019000000512''"
    using toFixed0_of_int [of 4611686019000000512 example_Number_toString] by (simp add: js_def)
  show ?thesis
    using strToHash_bucket [OF late_clock, of example_Number_toString "js ''T''"]
    by (simp only: a c d) (simp add: js_def)
qed

text \<open>
  Where the statement of the specification fails. Under the skew \<open>- 2\<^sup>-\<^sup>2\<^sup>2\<close> the clocks
  \<open>1700000000000\<close> and \<open>1700000100000\<close> give two values of \<open>getUnixTimestamp\<close> in the
  same interval of 300 seconds, number \<open>5666666\<close>; the sum of the second one and
  \<open>WIN_EPOCH\<close> is rounded up to the next interval, and the strings handed to the digest
  differ. Before 1601 the remainder is negative and the sum is truncated towards zero,
  not down: the sums \<open>- 10\<close> and \<open>- 300\<close> of one interval give the tick counts \<open>0\<close> and
  \<open>- 3000000000\<close>. Under the skew NaN the string has no tick count. At the sum
  \<open>461168601900\<close> the product with \<open>10\<^sup>7\<close> is rounded: the tick count printed ends
  with \<open>512\<close>.
\<close>

theorem generateSecMsGec_token_counterexample:
  "getUnixTimestamp (Finite 1700000000000) (Finite (- 1 / 4194304))
     = Finite (7130316799999999 / 4194304)
   \<and> getUnixTimestamp (Finite 1700000100000) (Finite (- 1 / 4194304))
     = Finite (7130317219430399 / 4194304)
   \<and> \<lfloor>(7130316799999999 / 4194304 :: rat) / 300\<rfloor> = 5666666
   \<and> \<lfloor>(7130317219430399 / 4194304 :: rat) / 300\<rfloor> = 5666666
   \<and> strToHash example_Number_toString (js ''T'') (Finite 1700000000000) (Finite (- 1 / 4194304))
     = js ''133444734000000000T''
   \<and> strToHash example_Number_toString (js ''T'') (Finite 1700000100000) (Finite (- 1 / 4194304))
     = js ''133444737000000000T''
   \<and> num_add (getUnixTimestamp (Finite 1700000000000) (Finite (- 13344473610))) WIN_EPOCH
     = Finite (- 10)
   \<and> num_add (getUnixTimestamp (Finite 1699999710000) (Finite (- 13344473610))) WIN_EPOCH
     = Finite (- 300)
   \<and> \<lfloor>(- 10 :: rat) / 300\<rfloor> = - 1 \<and> \<lfloor>(- 300 :: rat) / 300\<rfloor> = - 1
   \<and> strToHash example_Number_toString (js ''T'') (Finite 1700000000000) (Finite (- 13344473610))
     = js ''0T''
   \<and> strToHash example_Number_toString (js ''T'') (Finite 1699999710000) (Finite (- 13344473610))
     = js ''-3000000000T''
   \<and> strToHash example_Number_toString (js ''T'') (Finite 1700000000000) NaN = js ''NaNT''
   \<and> num_add (getUnixTimestamp (Finite 449524128300000) (Finite 0)) WIN_EPOCH
     = Finite 461168601900
   \<and> \<lfloor>(461168601900 :: rat) / 300\<rfloor> * 300 * 10 ^ 7 = 4611686019000000000
   \<and> strToHash example_Number_toString (js ''T'') (Finite 449524128300000) (Finite 0)
     = js ''4611686019000000512T''"
proof -
  have f: "\<lfloor>(7130316799999999 / 4194304 :: rat) / 300\<rfloor> = 5666666"
    "\<lfloor>(7130317219430399 / 4194304 :: rat) / 300\<rfloor> = 5666666"
    "\<lfloor>(461168601900 :: rat) / 300\<rfloor> * 300 * 10 ^ 7 = 4611686019000000000"
    by (simp_all add: floor_rat_numeral)
  have g: "\<lfloor>(- 10 :: rat) / 300\<rfloor> = - 1" "\<lfloor>(- 300 :: rat) / 300\<rfloor> = - 1"
    by (rule floor_unique; simp)+
  from f g show ?thesis
    by (simp only: skewed_clock_first skewed_clock_second skewed_strings early_clock_first
        early_clock_second early_strings NaN_string late_clock late_string simp_thms)
qed


section \<open>The clock skew\<close>

text \<open>
  C6, as the code has it. Without a date header (none, or an empty one) the call
  fails with \<open>SkewAdjustmentError\<close> and returns no new skew. With a date header \<open>d\<close>
  the call never fails: the new skew is the old one plus the difference between the
  seconds of \<open>d\<close> and \<open>getUnixTimestamp\<close>. For a \<open>d\<close> that is not a date the seconds
  are NaN, and so is the new skew.
\<close>

theorem handleClientResponseError_skew:
  "(\<not> truthy (server_date hs) \<longrightarrow>
      handleClientResponseError Date_getTime now skew hs
        = Inl (SkewAdjustmentError (js ''No server date in headers.'')))
   \<and> (server_date hs = Some d \<and> d \<noteq> [] \<longrightarrow>
        handleClientResponseError Date_getTime now skew hs
          = Inr (num_add skew
                  (num_sub (num_div (Date_getTime d) (Finite 1000)) (getUnixTimestamp now skew))))
   \<and> (server_date hs = Some d \<and> d \<noteq> [] \<and> Date_getTime d = NaN \<longrightarrow>
        handleClientResponseError Date_getTime now skew hs = Inr NaN)"
  by (simp add: handleClientResponseError_def parseRfc2616Date_def adjClockSkewSeconds_def
      truthy_def Let_def num_div_NaN num_sub_def num_add_NaN)

theorem handleClientResponseError_skew_witness:
  "handleClientResponseError example_Date_getTime (Finite 1893455990000) (Finite 0)
      (PlainHeaders [js ''date'' \<mapsto> js ''yesterday'']) = Inr NaN
   \<and> handleClientResponseError example_Date_getTime (Finite 1893455990000) (Finite 0)
      (FetchHeaders [js ''date'' \<mapsto> js ''Tue, 01 Jan 2030 00:00:00 GMT'']) = Inr (Finite 10)
   \<and> handleClientResponseError example_Date_getTime (Finite 1893455990000) (Finite 0)
      (PlainHeaders [js ''Date'' \<mapsto> js ''Tue, 01 Jan 2030 00:00:00 GMT'']) = Inr (Finite 10)
   \<and> handleClientResponseError example_Date_getTime (Finite 1893455990000) (Finite 0)
      (PlainHeaders Map.empty) = Inl (SkewAdjustmentError (js ''No server date in headers.''))"
proof -
  note t = handleClientResponseError_skew [where Date_getTime = example_Date_getTime
      and now = "Finite 1893455990000" and skew = "Finite 0"]
  have n: "js ''yesterday'' \<noteq> js ''Tue, 01 Jan 2030 00:00:00 GMT''" "js ''Date'' \<noteq> js ''date''"
    by (simp_all add: js_def)
  have e: "js ''yesterday'' \<noteq> []" "js ''Tue, 01 Jan 2030 00:00:00 GMT'' \<noteq> []"
    by (simp_all add: js_def)
  have a: "handleClientResponseError example_Date_getTime (Finite 1893455990000) (Finite 0)
      (PlainHeaders [js ''date'' \<mapsto> js ''yesterday'']) = Inr NaN"
    using t [where hs = "PlainHeaders [js ''date'' \<mapsto> js ''yesterday'']" and d = "js ''yesterday''"]
    by (simp add: server_date_def truthy_def example_Date_getTime_def n e num_div_NaN
        num_sub_def num_add_NaN)
  have v: "num_add (Finite 0) (num_sub (num_div (Finite 1893456000000) (Finite 1000))
      (getUnixTimestamp (Finite 1893455990000) (Finite 0))) = Finite 10"
    by (simp add: getUnixTimestamp_def num_div_def num_sub_def num_neg_def num_add_def fl_numeral)
  have b: "handleClientResponseError example_Date_getTime (Finite 1893455990000) (Finite 0)
      (FetchHeaders [js ''date'' \<mapsto> js ''Tue, 01 Jan 2030 00:00:00 GMT'']) = Inr (Finite 10)"
    using t [where hs = "FetchHeaders [js ''date'' \<mapsto> js ''Tue, 01 Jan 2030 00:00:00 GMT'']"
        and d = "js ''Tue, 01 Jan 2030 00:00:00 GMT''"] v
    by (simp add: server_date_def example_Date_getTime_def e)
  have c: "handleClientResponseError example_Date_getTime (Finite 1893455990000) (Finite 0)
      (PlainHeaders [js ''Date'' \<mapsto> js ''Tue, 01 Jan 2030 00:00:00 GMT'']) = Inr (Finite 10)"
    using t [where hs = "PlainHeaders [js ''Date'' \<mapsto> js ''Tue, 01 Jan 2030 00:00:00 GMT'']"
        and d = "js ''Tue, 01 Jan 2030 00:00:00 GMT''"] v
    by (simp add: server_date_def truthy_def example_Date_getTime_def e n)
  have d: "handleClientResponseError example_Date_getTime (Finite 1893455990000) (Finite 0)
      (PlainHeaders Map.empty) = Inl (SkewAdjustmentError (js ''No server date in headers.''))"
    using t [where hs = "PlainHeaders Map.empty"]
    by (simp add: server_date_def truthy_def)
  from a b c d show ?thesis by (simp only: simp_thms)
qed

section \<open>The text decoder\<close>

lemma header_line_two_colons:
  assumes "key \<noteq> []" "val \<noteq> []" "58 \<notin> set key" "58 \<notin> set val" "key \<noteq> js ''__proto__''"
  shows "header_line hs (key @ js '':'' @ val @ js '':'' @ further) = hs(key \<mapsto> trim val)"
proof -
  have c: "js '':'' = [58]" by (simp add: js_def)
  have "split (key @ js '':'' @ val @ js '':'' @ further) (js '':'')
      = key # val # split_from [58] [] further"
    using assms(3,4) by (simp add: c split_def split_from_char_first)
  then show ?thesis using assms(1,2,5) by (simp add: header_line_def split_limit_def set_header_def)
qed

lemma is_ascii_js_examples:
  "is_ascii (js ''Path:turn.start'' @ CRLF @ CRLF)"
  "is_ascii (js ''X-Timestamp:12:30'' @ CRLF @ CRLF @ js ''{}'')"
  "is_ascii (js ''abcdef'')"
  by (simp_all add: is_ascii_def js_def CRLF_def)

text \<open>
  C3, as the code has it, for a message of ASCII characters. With \<open>i\<close> the position of
  the first \<^verbatim>\<open>\r\n\r\n\<close>, the headers are those of the lines before \<open>i\<close> and the
  payload is the bytes from position \<open>i + 4\<close> on. Without a separator the headers are
  empty and the payload is the message without its first three bytes. On a line
  \<open>key:val:further\<close> the text stored for \<open>key\<close> ends at the second colon. The frame
  \<^verbatim>\<open>Path:turn.start\r\n\r\n\<close> decodes to the header \<open>Path\<close> with the text
  \<open>turn.start\<close> and an empty payload.
\<close>

theorem getHeadersAndDataFromText_decodes:
  "(is_ascii str \<longrightarrow>
      getHeadersAndDataFromText (encode str) =
        (let i = indexOf str (CRLF @ CRLF) in
         (if i \<noteq> - 1 then header_lines Map.empty (split (take (nat i) str) CRLF) else Map.empty,
          encode (drop (nat (i + 4)) str))))
   \<and> (is_ascii str \<and> indexOf str (CRLF @ CRLF) = - 1 \<longrightarrow>
        getHeadersAndDataFromText (encode str) = (Map.empty, encode (drop 3 str)))
   \<and> (key \<noteq> [] \<and> val \<noteq> [] \<and> 58 \<notin> set key \<and> 58 \<notin> set val \<and> key \<noteq> js ''__proto__''
        \<longrightarrow> header_line hs (key @ js '':'' @ val @ js '':'' @ further) = hs(key \<mapsto> trim val))
   \<and> getHeadersAndDataFromText (encode (js ''Path:turn.start'' @ CRLF @ CRLF))
        = ([js ''Path'' \<mapsto> js ''turn.start''], [])"
proof (intro conjI impI)
  assume "is_ascii str"
  then show "getHeadersAndDataFromText (encode str) =
        (let i = indexOf str (CRLF @ CRLF) in
         (if i \<noteq> - 1 then header_lines Map.empty (split (take (nat i) str) CRLF) else Map.empty,
          encode (drop (nat (i + 4)) str)))"
    by (rule text_decode_ascii)
next
  assume "is_ascii str \<and> indexOf str (CRLF @ CRLF) = - 1"
  then show "getHeadersAndDataFromText (encode str) = (Map.empty, encode (drop 3 str))"
    using text_decode_ascii [of str] by (simp add: Let_def numeral_3_eq_3)
next
  assume "key \<noteq> [] \<and> val \<noteq> [] \<and> 58 \<notin> set key \<and> 58 \<notin> set val \<and> key \<noteq> js ''__proto__''"
  then show "header_line hs (key @ js '':'' @ val @ js '':'' @ further) = hs(key \<mapsto> trim val)"
    by (simp add: header_line_two_colons)
next
  show "getHeadersAndDataFromText (encode (js ''Path:turn.start'' @ CRLF @ CRLF))
        = ([js ''Path'' \<mapsto> js ''turn.start''], [])"
    by (simp only: text_decode_ascii [OF is_ascii_js_examples(1)])
       (simp add: indexOf_def CRLF_def js_def Let_def split_def split_limit_def header_line_def
          set_header_def trim_def is_white_space_def encode_def)
qed

theorem getHeadersAndDataFromText_decodes_witness:
  "getHeadersAndDataFromText (encode (js ''abcdef'')) = (Map.empty, encode (js ''def''))
   \<and> getHeadersAndDataFromText (encode (js ''X-Timestamp:12:30'' @ CRLF @ CRLF @ js ''{}''))
       = ([js ''X-Timestamp'' \<mapsto> js ''12''], encode (js ''{}''))
   \<and> header_line Map.empty (js ''X-Timestamp'' @ js '':'' @ js ''12'' @ js '':'' @ js ''30'')
       = [js ''X-Timestamp'' \<mapsto> js ''12'']"
proof -
  note t = getHeadersAndDataFromText_decodes
  have i: "indexOf (js ''abcdef'') (CRLF @ CRLF) = - 1"
    by (simp add: indexOf_def CRLF_def js_def)
  have a: "getHeadersAndDataFromText (encode (js ''abcdef'')) = (Map.empty, encode (js ''def''))"
    using t [where str = "js ''abcdef''"] i is_ascii_js_examples(3) by (simp add: js_def)
  have b: "getHeadersAndDataFromText (encode (js ''X-Timestamp:12:30'' @ CRLF @ CRLF @ js ''{}''))
       = ([js ''X-Timestamp'' \<mapsto> js ''12''], encode (js ''{}''))"
    using t [where str = "js ''X-Timestamp:12:30'' @ CRLF @ CRLF @ js ''{}''"] is_ascii_js_examples(2)
    by (simp add: indexOf_def CRLF_def js_def Let_def split_def split_limit_def header_line_def
          set_header_def trim_def is_white_space_def)
  have c: "header_line Map.empty (js ''X-Timestamp'' @ js '':'' @ js ''12'' @ js '':'' @ js ''30'')
       = [js ''X-Timestamp'' \<mapsto> js ''12'']"
    using t [where key = "js ''X-Timestamp''" and val = "js ''12''" and further = "js ''30''"
        and hs = Map.empty]
    by (simp add: js_def trim_def is_white_space_def)
  from a b c show ?thesis by (simp only: simp_thms)
qed

end
